theory Spec2Isabelle
  imports Main "HOL-Library.AList" "HOL-Library.Char_ord" "HOL-Library.List_Lexorder"
    "HOL-Library.Multiset" "HOL-Library.Word"
begin

section \<open>Values, errors and paths\<close>

text \<open>
  The client handles Python values of a few shapes: \<open>None\<close>, strings (identifiers,
  dates, modality codes), integers, sequences (a multi-valued DICOM attribute, the
  \<open>Value\<close> list of the DICOM JSON model) and dictionaries (a wire-format record).
  Strings are lists of 8-bit characters.
\<close>

datatype val =
    VNone
  | VStr string
  | VInt int
  | VSeq "val list"
  | VDict "(string \<times> val) list"

text \<open>
  A path is the list of its components, the innermost first, so that \<open>c # p\<close> is the
  child \<open>p / c\<close> and \<open>p\<close> is its parent; \<open>[]\<close> is the directory the relative
  paths start from.
\<close>

type_synonym path = "string list"

type_synonym bytes = "8 word list"

text \<open>Every exception the modelled code can raise is a value; \<open>Inl\<close> carries it.\<close>

datatype error =
    TypeError string
  | ValueError string
  | AttributeError string
  | KeyError string
  | IndexError string
  | RuntimeError string
  | FileExistsError path
  | FileNotFoundError path
  | NotADirectoryError path
  | IsADirectoryError path
  | HTTPError string

section \<open>\<open>_utils.py\<close>: flatten\<close>

text \<open>
  \<^verbatim>\<open>return value[0] if value is not None and len(value)==1 else value\<close>

  \<open>len\<close> of an integer raises; a one-character string is its own first element; a
  dictionary of one entry is indexed with the key \<open>0\<close>, which its string keys never
  are.
\<close>

fun py_len :: "val \<Rightarrow> error + nat" where
  "py_len VNone = Inl (TypeError ''object of type NoneType has no len()'')"
| "py_len (VStr s) = Inr (length s)"
| "py_len (VInt i) = Inl (TypeError ''object of type int has no len()'')"
| "py_len (VSeq xs) = Inr (length xs)"
| "py_len (VDict kvs) = Inr (length (remdups (map fst kvs)))"

fun py_first :: "val \<Rightarrow> error + val" where
  "py_first (VSeq (x # xs)) = Inr x"
| "py_first (VSeq []) = Inl (IndexError ''list index out of range'')"
| "py_first (VStr (c # cs)) = Inr (VStr [c])"
| "py_first (VStr []) = Inl (IndexError ''string index out of range'')"
| "py_first (VDict kvs) = Inl (KeyError ''0'')"
| "py_first VNone = Inl (TypeError ''not subscriptable'')"
| "py_first (VInt i) = Inl (TypeError ''not subscriptable'')"

definition flatten :: "val \<Rightarrow> error + val" where
  "flatten v =
     (if v \<noteq> VNone then
        (case py_len v of
           Inl e \<Rightarrow> Inl e
         | Inr n \<Rightarrow> if n = 1 then py_first v else Inr v)
      else Inr v)"

section \<open>\<open>_utils.py\<close>: the identifier sort key\<close>

text \<open>
  \<open>str.split(".")\<close>: the pieces between the dots; an empty string gives one empty
  piece.
\<close>

fun split_on :: "char \<Rightarrow> string \<Rightarrow> string list" where
  "split_on sep [] = [[]]"
| "split_on sep (c # cs) =
     (if c = sep then [] # split_on sep cs
      else (case split_on sep cs of
              [] \<Rightarrow> [[c]]
            | w # ws \<Rightarrow> (c # w) # ws))"

text \<open>
  Python's \<open>int(s)\<close> on a string, base ten: white space around the literal is
  dropped, one sign may lead, and single underscores may stand between digits. \<open>None\<close>
  is the \<open>ValueError\<close> "invalid literal for int()".
\<close>

definition py_isspace :: "char \<Rightarrow> bool" where
  "py_isspace c \<longleftrightarrow>
     (of_char c :: nat) \<in> {9, 10, 11, 12, 13, 28, 29, 30, 31, 32, 133, 160}"

definition is_digit :: "char \<Rightarrow> bool" where
  "is_digit c \<longleftrightarrow> 48 \<le> (of_char c :: nat) \<and> (of_char c :: nat) \<le> 57"

definition digit_val :: "char \<Rightarrow> int" where
  "digit_val c = int (of_char c) - 48"

fun parse_digits :: "string \<Rightarrow> int \<Rightarrow> int option" where
  "parse_digits [] acc = Some acc"
| "parse_digits [c] acc =
     (if is_digit c then Some (10 * acc + digit_val c) else None)"
| "parse_digits (c # d # ds) acc =
     (if is_digit c then parse_digits (d # ds) (10 * acc + digit_val c)
      else if c = CHR ''_'' \<and> is_digit d then parse_digits ds (10 * acc + digit_val d)
      else None)"

definition py_strip :: "string \<Rightarrow> string" where
  "py_strip s = rev (dropWhile py_isspace (rev (dropWhile py_isspace s)))"

definition py_int :: "string \<Rightarrow> int option" where
  "py_int s =
     (case py_strip s of
        [] \<Rightarrow> None
      | c # cs \<Rightarrow>
          (let body = (if c = CHR ''-'' \<or> c = CHR ''+'' then cs else c # cs) in
           case body of
             [] \<Rightarrow> None
           | d # ds \<Rightarrow>
               if is_digit d then
                 map_option (\<lambda>n. if c = CHR ''-'' then - n else n)
                   (parse_digits ds (digit_val d))
               else None))"

text \<open>
  The key of one identifier is a tuple of integers, or (the fallback the code
  writes) the list of the component strings.
\<close>

datatype key = KTuple "int list" | KList "string list"

text \<open>
  \<^verbatim>\<open>if not "invalid literal for int()" in e:\<close> applies \<open>in\<close> to the exception
  object itself. An exception is neither a container nor iterable, so the test
  raises a \<open>TypeError\<close> for every string and every exception.
\<close>

definition str_in_exception :: "string \<Rightarrow> error \<Rightarrow> error + bool" where
  "str_in_exception s e = Inl (TypeError ''argument of type ValueError is not iterable'')"

text \<open>
  \<^verbatim>\<open>
  uid = uid.split(".")
  try:
      uid = tuple(map(int, uid))
  except ValueError as e:
      if not "invalid literal for int()" in e:
          raise
  return uid
  \<close>
  A value that is no string has no \<open>split\<close>.
\<close>

definition uid_key :: "val \<Rightarrow> error + key" where
  "uid_key uid =
     (case uid of
        VStr s \<Rightarrow>
          (let parts = split_on CHR ''.'' s in
           case those (map py_int parts) of
             Some ks \<Rightarrow> Inr (KTuple ks)
           | None \<Rightarrow>
               (let e = ValueError ''invalid literal for int()'' in
                case str_in_exception ''invalid literal for int()'' e of
                  Inl e' \<Rightarrow> Inl e'
                | Inr found \<Rightarrow> if \<not> found then Inl e else Inr (KList parts)))
      | _ \<Rightarrow> Inl (AttributeError ''split''))"

text \<open>
  Python compares two tuples (or two lists) at the first position where they differ;
  when one is a prefix of the other, the shorter is the smaller. A tuple and a list
  do not compare.
\<close>

fun py_seq_lt :: "('a::linorder) list \<Rightarrow> 'a list \<Rightarrow> bool" where
  "py_seq_lt [] [] = False"
| "py_seq_lt [] (y # ys) = True"
| "py_seq_lt (x # xs) [] = False"
| "py_seq_lt (x # xs) (y # ys) = (if x = y then py_seq_lt xs ys else x < y)"

fun key_lt :: "key \<Rightarrow> key \<Rightarrow> error + bool" where
  "key_lt (KTuple a) (KTuple b) = Inr (py_seq_lt a b)"
| "key_lt (KList a) (KList b) = Inr (py_seq_lt a b)"
| "key_lt _ _ = Inl (TypeError ''< not supported between tuple and list'')"

section \<open>Tables\<close>

text \<open>
  A pandas \<open>DataFrame\<close>: the column names in order, and the rows, each holding one
  cell per column.
\<close>

record frame =
  columns :: "string list"
  rows :: "val list list"

fun index_of :: "'a \<Rightarrow> 'a list \<Rightarrow> nat option" where
  "index_of x [] = None"
| "index_of x (y # ys) = (if x = y then Some 0 else map_option Suc (index_of x ys))"

definition cell :: "val list \<Rightarrow> nat \<Rightarrow> val" where
  "cell row i = (if i < length row then row ! i else VNone)"

text \<open>\<open>df[name]\<close>: the cells of one column, a \<open>KeyError\<close> for an unknown name.\<close>

definition column :: "frame \<Rightarrow> string \<Rightarrow> error + val list" where
  "column df name =
     (case index_of name (columns df) of
        None \<Rightarrow> Inl (KeyError name)
      | Some i \<Rightarrow> Inr (map (\<lambda>r. cell r i) (rows df)))"

text \<open>
  \<open>pd.DataFrame(data, columns=keywords)\<close> for a dictionary of equally long lists:
  the number of rows is the length of the lists, and a dictionary with no entry gives
  no row. A requested column the dictionary lacks is filled with nulls.
\<close>

definition DataFrame :: "(string \<times> val list) list \<Rightarrow> string list \<Rightarrow> frame" where
  "DataFrame data cols =
     \<lparr>columns = cols,
      rows = (case data of
                [] \<Rightarrow> []
              | (k, vs) # _ \<Rightarrow>
                  map (\<lambda>i. map (\<lambda>c. case map_of data c of
                                         None \<Rightarrow> VNone
                                       | Some col \<Rightarrow> cell col i) cols)
                    [0..<length vs])\<rparr>"

text \<open>
  A \<open>pydicom\<close> dataset: its elements by keyword and the two transfer-syntax flags the
  writer sets. \<open>Dataset.get(keyword, default=None)\<close> gives \<open>None\<close> for an element
  that is absent; the attribute access \<open>inst.Keyword\<close> raises instead.
\<close>

record dataset =
  elements :: "(string \<times> val) list"
  is_little_endian :: "bool option"
  is_implicit_VR :: "bool option"

definition ds_get :: "dataset \<Rightarrow> string \<Rightarrow> val" where
  "ds_get d keyword = (case map_of (elements d) keyword of None \<Rightarrow> VNone | Some v \<Rightarrow> v)"

definition ds_attr :: "dataset \<Rightarrow> string \<Rightarrow> error + val" where
  "ds_attr d keyword =
     (case map_of (elements d) keyword of
        None \<Rightarrow> Inl (AttributeError keyword)
      | Some v \<Rightarrow> Inr v)"

section \<open>\<open>_utils.py\<close>: dicoms\_to\_frame\<close>

definition default_keywords :: "string list" where
  "default_keywords =
     [''StudyInstanceUID'', ''SeriesInstanceUID'', ''SOPInstanceUID'', ''Modality'']"

text \<open>
  \<^verbatim>\<open>
  data = dict()
  for keyword in keywords:
      data[keyword] = [d.get(keyword, default=None) for d in dicoms]
  df = pd.DataFrame(data, columns=keywords)
  \<close>
\<close>

fun collect_columns ::
  "dataset list \<Rightarrow> string list \<Rightarrow> (string \<times> val list) list \<Rightarrow> (string \<times> val list) list"
where
  "collect_columns dicoms [] data = data"
| "collect_columns dicoms (keyword # rest) data =
     collect_columns dicoms rest
       (AList.update keyword (map (\<lambda>d. ds_get d keyword) dicoms) data)"

definition dicoms_to_frame :: "dataset list \<Rightarrow> string list option \<Rightarrow> frame" where
  "dicoms_to_frame dicoms keywords =
     (let kws = (case keywords of None \<Rightarrow> default_keywords | Some ks \<Rightarrow> ks) in
      DataFrame (collect_columns dicoms kws []) kws)"

section \<open>\<open>_utils.py\<close>: sort\_frame\_by\_uid\<close>

text \<open>Run a fallible function over a list, stopping at the first error.\<close>

fun map_err :: "('a \<Rightarrow> error + 'b) \<Rightarrow> 'a list \<Rightarrow> error + 'b list" where
  "map_err f [] = Inr []"
| "map_err f (x # xs) =
     (case f x of
        Inl e \<Rightarrow> Inl e
      | Inr y \<Rightarrow> (case map_err f xs of Inl e \<Rightarrow> Inl e | Inr ys \<Rightarrow> Inr (y # ys)))"

fun tuple_of :: "key \<Rightarrow> int list option" where
  "tuple_of (KTuple t) = Some t"
| "tuple_of (KList l) = None"

fun list_of_key :: "key \<Rightarrow> string list option" where
  "list_of_key (KList l) = Some l"
| "list_of_key (KTuple t) = None"

text \<open>
  \<open>df.sort_values(by=by, key=sort_key)\<close>: the key function is applied to every cell
  of the column, then the rows are put in ascending order of their keys. The order
  of the keys is Python's (\<open>py_seq_lt\<close>, which is the lexicographic order, lemma
  \<open>py_seq_lt_lexord\<close>); an insertion sort stands for the library's algorithm, and
  rows of equal keys come in some order of which nothing is claimed. Keys of both
  kinds in one column do not compare.
\<close>

definition sort_by_keys :: "key list \<Rightarrow> 'a list \<Rightarrow> error + 'a list" where
  "sort_by_keys ks xs =
     (case those (map tuple_of ks) of
        Some ts \<Rightarrow> Inr (map snd (sort_key fst (zip ts xs)))
      | None \<Rightarrow>
          (case those (map list_of_key ks) of
             Some ls \<Rightarrow> Inr (map snd (sort_key fst (zip ls xs)))
           | None \<Rightarrow> Inl (TypeError ''< not supported between tuple and list'')))"

definition sort_frame_by_uid :: "frame \<Rightarrow> string \<Rightarrow> error + frame" where
  "sort_frame_by_uid df by =
     (case column df by of
        Inl e \<Rightarrow> Inl e
      | Inr col \<Rightarrow>
          (case map_err uid_key col of
             Inl e \<Rightarrow> Inl e
           | Inr ks \<Rightarrow>
               (case sort_by_keys ks (rows df) of
                  Inl e \<Rightarrow> Inl e
                | Inr rs \<Rightarrow> Inr (df\<lparr>rows := rs\<rparr>))))"

section \<open>The file system\<close>

text \<open>
  The files under the starting directory: an association list from paths to nodes.
  Identifier strings are taken as single path components.
\<close>

datatype node = Dir | File bytes

type_synonym fs = "(path \<times> node) list"

definition is_dir :: "fs \<Rightarrow> path \<Rightarrow> bool" where
  "is_dir fs p \<longleftrightarrow> p = [] \<or> map_of fs p = Some Dir"

definition is_file :: "fs \<Rightarrow> path \<Rightarrow> bool" where
  "is_file fs p \<longleftrightarrow> p \<noteq> [] \<and> (case map_of fs p of Some (File b) \<Rightarrow> True | _ \<Rightarrow> False)"

definition path_exists :: "fs \<Rightarrow> path \<Rightarrow> bool" where
  "path_exists fs p \<longleftrightarrow> p = [] \<or> map_of fs p \<noteq> None"

text \<open>
  A file system is well formed when every entry lies in a directory. The operations
  below keep it so (lemma \<open>write_instances_wf\<close>).
\<close>

definition wf_fs :: "fs \<Rightarrow> bool" where
  "wf_fs fs \<longleftrightarrow> list_all (\<lambda>(p, n). p \<noteq> [] \<and> is_dir fs (tl p)) fs"

text \<open>\<open>os.mkdir\<close>: the parent is resolved first, then the name must be free.\<close>

definition os_mkdir :: "fs \<Rightarrow> path \<Rightarrow> error + fs" where
  "os_mkdir fs p =
     (case p of
        [] \<Rightarrow> Inl (FileExistsError p)
      | c # parent \<Rightarrow>
          if \<not> path_exists fs parent then Inl (FileNotFoundError p)
          else if \<not> is_dir fs parent then Inl (NotADirectoryError p)
          else if path_exists fs p then Inl (FileExistsError p)
          else Inr (AList.update p Dir fs))"

definition is_not_found :: "error \<Rightarrow> bool" where
  "is_not_found e = (case e of FileNotFoundError q \<Rightarrow> True | _ \<Rightarrow> False)"

text \<open>
  \<open>Path.mkdir(parents, exist_ok)\<close> of pathlib:
  \<^verbatim>\<open>
  try:
      os.mkdir(self, mode)
  except FileNotFoundError:
      if not parents or self.parent == self:
          raise
      self.parent.mkdir(parents=True, exist_ok=True)
      self.mkdir(mode, parents=False, exist_ok=exist_ok)
  except OSError:
      if not exist_ok or not self.is_dir():
          raise
  \<close>
  \<open>mkdir_plain\<close> is the call with \<open>parents=False\<close>, \<open>mkdir_parents\<close> the one with
  \<open>parents=True\<close>. The file system is returned with an error too: directories
  made before the error stay.
\<close>

definition mkdir_plain :: "bool \<Rightarrow> fs \<Rightarrow> path \<Rightarrow> (error + unit) \<times> fs" where
  "mkdir_plain exist_ok fs p =
     (case os_mkdir fs p of
        Inr fs' \<Rightarrow> (Inr (), fs')
      | Inl e \<Rightarrow>
          if is_not_found e then (Inl e, fs)
          else if \<not> exist_ok \<or> \<not> is_dir fs p then (Inl e, fs)
          else (Inr (), fs))"

fun mkdir_parents :: "bool \<Rightarrow> fs \<Rightarrow> path \<Rightarrow> (error + unit) \<times> fs" where
  "mkdir_parents exist_ok fs [] = mkdir_plain exist_ok fs []"
| "mkdir_parents exist_ok fs (c # parent) =
     (case os_mkdir fs (c # parent) of
        Inr fs' \<Rightarrow> (Inr (), fs')
      | Inl e \<Rightarrow>
          if is_not_found e then
            (case mkdir_parents True fs parent of
               (Inl e', fs1) \<Rightarrow> (Inl e', fs1)
             | (Inr u, fs1) \<Rightarrow> mkdir_plain exist_ok fs1 (c # parent))
          else if \<not> exist_ok \<or> \<not> is_dir fs (c # parent) then (Inl e, fs)
          else (Inr (), fs))"

text \<open>
  \<^verbatim>\<open>
  def ensure_dir(path, forced):
      path = Path(path)
      if not path.is_dir():
          path.mkdir(parents=True, exist_ok=forced)
      return path.is_dir()
  \<close>
\<close>

definition ensure_dir :: "fs \<Rightarrow> path \<Rightarrow> bool \<Rightarrow> (error + bool) \<times> fs" where
  "ensure_dir fs p forced =
     (if \<not> is_dir fs p then
        (case mkdir_parents forced fs p of
           (Inl e, fs') \<Rightarrow> (Inl e, fs')
         | (Inr u, fs') \<Rightarrow> (Inr (is_dir fs' p), fs'))
      else (Inr (is_dir fs p), fs))"

text \<open>Opening a path for writing and storing the bytes, as \<open>save_as\<close> and \<open>to_csv\<close> do.\<close>

definition write_file :: "fs \<Rightarrow> path \<Rightarrow> bytes \<Rightarrow> error + fs" where
  "write_file fs p b =
     (case p of
        [] \<Rightarrow> Inl (IsADirectoryError p)
      | c # parent \<Rightarrow>
          if \<not> path_exists fs parent then Inl (FileNotFoundError p)
          else if \<not> is_dir fs parent then Inl (NotADirectoryError p)
          else if is_dir fs p then Inl (IsADirectoryError p)
          else Inr (AList.update p (File b) fs))"

section \<open>The client and its collaborators\<close>

type_synonym filters = "(string \<times> string) list option"

text \<open>The requests the client sends to the repository.\<close>

datatype request =
    SearchForStudies filters bool "int option" "int option" "string list"
  | SearchForSeries val filters bool "int option" "int option" "string list"
  | RetrieveStudyMetadata val
  | RetrieveStudy val
  | RetrieveSeriesMetadata val val
  | RetrieveSeries val val

text \<open>
  What the libraries do is a parameter of the model: the repository's answer to a
  request (wire-format records for a search or a metadata retrieval, datasets for a
  full retrieval; a failed call is an error), \<open>Dataset.from_json\<close> with its bulk-data
  handler, the encoder behind \<open>save_as\<close>, the CSV writer, the clock, and the two
  printing routines, which return nothing and may raise.
\<close>

record env =
  search :: "request \<Rightarrow> error + val list"
  retrieve :: "request \<Rightarrow> error + dataset list"
  from_json :: "val \<Rightarrow> (string \<Rightarrow> bytes) option \<Rightarrow> dataset"
  dcmwrite :: "dataset \<Rightarrow> bytes"
  to_csv :: "frame \<Rightarrow> bytes"
  now :: string
  print_list :: "val list \<Rightarrow> string \<Rightarrow> error option"
  print_table_summary :: "frame \<Rightarrow> error option"

record client =
  default_out_dir :: path
  dry_run :: bool

definition STUDY_KEYS :: "string list" where
  "STUDY_KEYS = [''StudyInstanceUID'', ''PatientID'', ''StudyDate'', ''ModalitiesInStudy'']"

definition SERIES_KEYS :: "string list" where
  "SERIES_KEYS = [''StudyInstanceUID'', ''SeriesInstanceUID'', ''PatientID'',
     ''SeriesDate'', ''Modality'', ''RetrieveURL'']"

definition INSTANCE_KEYS :: "string list" where
  "INSTANCE_KEYS = [''StudyInstanceUID'', ''SeriesInstanceUID'', ''SOPInstanceUID'',
     ''PatientID'', ''SeriesDate'', ''Modality'']"

section \<open>\<open>_utils.py\<close>: dicomize\_json\_results\<close>

text \<open>
  \<^verbatim>\<open>
  def dicomize_json_result(data, meta_only=True):
      if meta_only:
          def handler(uri): return b""
      else:
          handler = None
      return dicom.dataset.Dataset.from_json(data, bulk_data_uri_handler=handler)

  def dicomize_json_results(data, meta_only=True):
      ret = [dicomize_json_result(d) for d in data]
      return ret
  \<close>
  The inner call names no \<open>meta_only\<close>, so the callee's default \<open>True\<close> applies.
\<close>

definition dicomize_json_result :: "env \<Rightarrow> val \<Rightarrow> bool \<Rightarrow> dataset" where
  "dicomize_json_result env data meta_only =
     (let handler = (if meta_only then Some (\<lambda>uri. []) else None) in
      from_json env data handler)"

definition dicomize_json_results :: "env \<Rightarrow> val list \<Rightarrow> bool \<Rightarrow> dataset list" where
  "dicomize_json_results env data meta_only = map (\<lambda>d. dicomize_json_result env d True) data"

section \<open>\<open>_client.py\<close>: the output writer\<close>

text \<open>
  \<^verbatim>\<open>
  out_dir = out_dir if out_dir is not None else self._default_out_dir
  out_dir = Path(out_dir)
  if out_dir is None: raise ValueError(...)
  if not ensure_dir(path=out_dir, forced=forced):
      raise RuntimeError("Failed to create output directory.")
  return out_dir
  \<close>
  A \<open>Path\<close> is never \<open>None\<close>, so the \<open>ValueError\<close> has no branch here.
\<close>

definition output_root :: "client \<Rightarrow> path option \<Rightarrow> path" where
  "output_root c out_dir = (case out_dir of None \<Rightarrow> default_out_dir c | Some p \<Rightarrow> p)"

definition ensure_ouput_dir ::
  "client \<Rightarrow> fs \<Rightarrow> path option \<Rightarrow> bool \<Rightarrow> (error + path) \<times> fs"
where
  "ensure_ouput_dir c fs out_dir forced =
     (let out = output_root c out_dir in
      case ensure_dir fs out forced of
        (Inl e, fs') \<Rightarrow> (Inl e, fs')
      | (Inr ok, fs') \<Rightarrow>
          if \<not> ok then (Inl (RuntimeError ''Failed to create output directory.''), fs')
          else (Inr out, fs'))"

text \<open>
  \<^verbatim>\<open>
  if self._dry_run:
      return
  out_dir = self._ensure_ouput_dir(out_dir, forced=True)
  now = datetime.datetime.now().strftime("%Y-%m-%d_%H.%M.%S")
  filename = "{}_{}.csv".format(label, now)
  df.to_csv(out_dir/filename, index=False)
  \<close>
\<close>

definition write_table ::
  "env \<Rightarrow> client \<Rightarrow> frame \<Rightarrow> path option \<Rightarrow> string \<Rightarrow> fs \<Rightarrow> (error + unit) \<times> fs"
where
  "write_table env c df out_dir label fs =
     (if dry_run c then (Inr (), fs)
      else
        (case ensure_ouput_dir c fs out_dir True of
           (Inl e, fs1) \<Rightarrow> (Inl e, fs1)
         | (Inr out, fs1) \<Rightarrow>
             (let filename = label @ ''_'' @ now env @ ''.csv'' in
              case write_file fs1 (filename # out) (to_csv env df) of
                Inl e \<Rightarrow> (Inl e, fs1)
              | Inr fs2 \<Rightarrow> (Inr (), fs2))))"

text \<open>
  The operand of a path division or of a string concatenation must be a string.
\<close>

fun as_str :: "val \<Rightarrow> error + string" where
  "as_str (VStr s) = Inr s"
| "as_str v = Inl (TypeError ''unsupported operand type'')"

text \<open>
  \<^verbatim>\<open>
  path = out_dir / inst.SeriesInstanceUID
  path /= inst.SOPInstanceUID + ".dcm"
  \<close>
\<close>

definition instance_path :: "path \<Rightarrow> dataset \<Rightarrow> error + path" where
  "instance_path out inst =
     (case ds_attr inst ''SeriesInstanceUID'' of
        Inl e \<Rightarrow> Inl e
      | Inr v \<Rightarrow>
          (case as_str v of
             Inl e \<Rightarrow> Inl e
           | Inr series \<Rightarrow>
               (case ds_attr inst ''SOPInstanceUID'' of
                  Inl e \<Rightarrow> Inl e
                | Inr w \<Rightarrow>
                    (case as_str w of
                       Inl e \<Rightarrow> Inl e
                     | Inr sop \<Rightarrow> Inr ((sop @ ''.dcm'') # series # out)))))"

text \<open>
  \<^verbatim>\<open>
  if inst.is_little_endian is None: inst.is_little_endian = False
  if inst.is_implicit_VR is None:   inst.is_implicit_VR = False
  \<close>
  The object as the encoder sees it. The model hands the object with its flags set
  to the encoder and leaves the caller's list as it was; the writer reads nothing
  else of the flags (lemma \<open>write_instances_with_defaults\<close>).
\<close>

definition with_defaults :: "dataset \<Rightarrow> dataset" where
  "with_defaults inst =
     inst\<lparr>is_little_endian := (case is_little_endian inst of None \<Rightarrow> Some False | Some b \<Rightarrow> Some b),
          is_implicit_VR := (case is_implicit_VR inst of None \<Rightarrow> Some False | Some b \<Rightarrow> Some b)\<rparr>"

text \<open>
  One round of the loop of \<open>_write_instances\<close>: the entry
  \<open>file_sizes[inst.SOPInstanceUID] = bytes\<close> it adds, or the error it raises.
  \<^verbatim>\<open>
  ensure_dir(path.parent, forced=forced)
  if not path.is_file() or forced:
      ...
      inst.save_as(path)
      bytes = path.stat().st_size
  else:
      bytes = None
      msg = "File already exists: %s" % path
      raise FileExistsError(msg)
  file_sizes[inst.SOPInstanceUID] = bytes
  \<close>
\<close>

definition write_instance ::
  "env \<Rightarrow> path \<Rightarrow> bool \<Rightarrow> fs \<Rightarrow> dataset \<Rightarrow> (error + (val \<times> nat)) \<times> fs"
where
  "write_instance env out forced fs inst =
     (case instance_path out inst of
        Inl e \<Rightarrow> (Inl e, fs)
      | Inr p \<Rightarrow>
          (case ensure_dir fs (tl p) forced of
             (Inl e, fs1) \<Rightarrow> (Inl e, fs1)
           | (Inr ok, fs1) \<Rightarrow>
               if \<not> is_file fs1 p \<or> forced then
                 (let content = dcmwrite env (with_defaults inst) in
                  case write_file fs1 p content of
                    Inl e \<Rightarrow> (Inl e, fs1)
                  | Inr fs2 \<Rightarrow> (Inr (ds_get inst ''SOPInstanceUID'', length content), fs2))
               else (Inl (FileExistsError p), fs1)))"

fun write_loop ::
  "env \<Rightarrow> path \<Rightarrow> bool \<Rightarrow> dataset list \<Rightarrow> (val \<times> nat) list \<Rightarrow> fs \<Rightarrow>
   (error + (val \<times> nat) list) \<times> fs"
where
  "write_loop env out forced [] file_sizes fs = (Inr file_sizes, fs)"
| "write_loop env out forced (inst # rest) file_sizes fs =
     (case write_instance env out forced fs inst of
        (Inl e, fs') \<Rightarrow> (Inl e, fs')
      | (Inr (sop, n), fs') \<Rightarrow>
          write_loop env out forced rest (AList.update sop n file_sizes) fs')"

text \<open>
  \<open>df.merge(file_sizes, left_on="SOPInstanceUID", right_index=True)\<close>: an inner join
  in the order of the table's rows; each row gets the size stored for its identifier,
  and a row without one is dropped.
\<close>

definition merge_file_sizes :: "frame \<Rightarrow> (val \<times> nat) list \<Rightarrow> error + frame" where
  "merge_file_sizes df file_sizes =
     (case index_of ''SOPInstanceUID'' (columns df) of
        None \<Rightarrow> Inl (KeyError ''SOPInstanceUID'')
      | Some i \<Rightarrow>
          Inr \<lparr>columns = columns df @ [''FileSize''],
               rows = concat (map (\<lambda>r. case map_of file_sizes (cell r i) of
                                           None \<Rightarrow> []
                                         | Some n \<Rightarrow> [r @ [VInt (int n)]]) (rows df))\<rparr>)"

text \<open>
  \<open>_write_instances(instances, out_dir, forced, suppress_progress)\<close>; the progress
  bar is left out.
\<close>

definition write_instances ::
  "env \<Rightarrow> client \<Rightarrow> dataset list \<Rightarrow> path option \<Rightarrow> bool \<Rightarrow> fs \<Rightarrow> (error + frame) \<times> fs"
where
  "write_instances env c instances out_dir forced fs =
     (case sort_frame_by_uid (dicoms_to_frame instances (Some INSTANCE_KEYS))
             ''SOPInstanceUID'' of
        Inl e \<Rightarrow> (Inl e, fs)
      | Inr df \<Rightarrow>
          if dry_run c then (Inr df, fs)
          else
            (case ensure_ouput_dir c fs out_dir forced of
               (Inl e, fs1) \<Rightarrow> (Inl e, fs1)
             | (Inr out, fs1) \<Rightarrow>
                 (case write_loop env out forced instances [] fs1 of
                    (Inl e, fs2) \<Rightarrow> (Inl e, fs2)
                  | (Inr file_sizes, fs2) \<Rightarrow>
                      (case merge_file_sizes df file_sizes of
                         Inl e \<Rightarrow> (Inl e, fs2)
                       | Inr df' \<Rightarrow> (Inr df', fs2)))))"

section \<open>\<open>_client.py\<close>: the search orchestrator\<close>

text \<open>
  \<open>pd.concat(frames, axis=0)\<close>: the rows of all frames, over the union of their
  columns in the order of first appearance; a cell of a column a frame lacks is null.
  With no frame at all pandas raises \<open>ValueError: No objects to concatenate\<close>.
\<close>

definition pd_concat :: "frame list \<Rightarrow> error + frame" where
  "pd_concat frames =
     (if frames = [] then Inl (ValueError ''No objects to concatenate'')
      else
        (let cols = rev (remdups (rev (concat (map columns frames)))) in
         Inr \<lparr>columns = cols,
              rows = concat (map (\<lambda>f. map (\<lambda>r. map (\<lambda>c. case index_of c (columns f) of
                                                           None \<Rightarrow> VNone
                                                         | Some i \<Rightarrow> cell r i) cols)
                                         (rows f)) frames)\<rparr>))"

text \<open>
  Every function that talks to the repository returns the requests it sent, in
  order, beside its result.
\<close>

definition query_studies ::
  "env \<Rightarrow> filters \<Rightarrow> bool \<Rightarrow> int option \<Rightarrow> int option \<Rightarrow> request list \<times> (error + frame)"
where
  "query_studies env search_filters fuzzy limit offset =
     (let req = SearchForStudies search_filters fuzzy limit offset STUDY_KEYS in
      ([req],
       case search env req of
         Inl e \<Rightarrow> Inl e
       | Inr studies \<Rightarrow>
           sort_frame_by_uid
             (dicoms_to_frame (dicomize_json_results env studies True) (Some STUDY_KEYS))
             ''StudyInstanceUID''))"

definition query_series_for_study ::
  "env \<Rightarrow> val \<Rightarrow> filters \<Rightarrow> bool \<Rightarrow> int option \<Rightarrow> int option \<Rightarrow>
   request list \<times> (error + frame)"
where
  "query_series_for_study env study_uid search_filters fuzzy limit offset =
     (let req = SearchForSeries study_uid search_filters fuzzy limit offset SERIES_KEYS in
      ([req],
       case search env req of
         Inl e \<Rightarrow> Inl e
       | Inr series \<Rightarrow>
           sort_frame_by_uid
             (dicoms_to_frame (dicomize_json_results env series True) (Some SERIES_KEYS))
             ''SeriesInstanceUID''))"

text \<open>
  The loop of \<open>_query_series\<close>:
  \<^verbatim>\<open>
  for i, study_uid in enumerate(studies["StudyInstanceUID"]):
      ret = self._query_series_for_study(study_uid=study_uid,
                                         search_filters=search_filters,
                                         fuzzy=fuzzy, limit=None, offset=None)
      series.append(ret)
  \<close>
\<close>

fun query_series_loop ::
  "env \<Rightarrow> filters \<Rightarrow> bool \<Rightarrow> val list \<Rightarrow> frame list \<Rightarrow> request list \<times> (error + frame list)"
where
  "query_series_loop env search_filters fuzzy [] series = ([], Inr series)"
| "query_series_loop env search_filters fuzzy (study_uid # rest) series =
     (case query_series_for_study env study_uid search_filters fuzzy None None of
        (reqs, Inl e) \<Rightarrow> (reqs, Inl e)
      | (reqs, Inr ret) \<Rightarrow>
          (case query_series_loop env search_filters fuzzy rest (series @ [ret]) of
             (reqs', r) \<Rightarrow> (reqs @ reqs', r)))"

definition query_series ::
  "env \<Rightarrow> filters \<Rightarrow> bool \<Rightarrow> int option \<Rightarrow> int option \<Rightarrow> request list \<times> (error + frame)"
where
  "query_series env search_filters fuzzy limit offset =
     (case query_studies env search_filters fuzzy limit offset of
        (reqs, Inl e) \<Rightarrow> (reqs, Inl e)
      | (reqs, Inr studies) \<Rightarrow>
          (case column studies ''StudyInstanceUID'' of
             Inl e \<Rightarrow> (reqs, Inl e)
           | Inr uids \<Rightarrow>
               (case query_series_loop env search_filters fuzzy uids [] of
                  (reqs', Inl e) \<Rightarrow> (reqs @ reqs', Inl e)
                | (reqs', Inr series) \<Rightarrow>
                    (reqs @ reqs',
                     case pd_concat series of
                       Inl e \<Rightarrow> Inl e
                     | Inr df \<Rightarrow> sort_frame_by_uid df ''SeriesInstanceUID''))))"

section \<open>\<open>_client.py\<close>: retrieval\<close>

definition retrieve_single_series ::
  "env \<Rightarrow> val \<Rightarrow> val \<Rightarrow> bool \<Rightarrow> request list \<times> (error + dataset list)"
where
  "retrieve_single_series env study_uid series_uid meta_only =
     (if meta_only then
        (let req = RetrieveSeriesMetadata study_uid series_uid in
         ([req],
          case search env req of
            Inl e \<Rightarrow> Inl e
          | Inr instances \<Rightarrow> Inr (dicomize_json_results env instances True)))
      else
        (let req = RetrieveSeries study_uid series_uid in ([req], retrieve env req)))"

definition retrieve_single_study ::
  "env \<Rightarrow> val \<Rightarrow> bool \<Rightarrow> request list \<times> (error + dataset list)"
where
  "retrieve_single_study env study_uid meta_only =
     (if meta_only then
        (let req = RetrieveStudyMetadata study_uid in
         ([req],
          case search env req of
            Inl e \<Rightarrow> Inl e
          | Inr instances \<Rightarrow> Inr (dicomize_json_results env instances True)))
      else
        (let req = RetrieveStudy study_uid in ([req], retrieve env req)))"

section \<open>\<open>_client.py\<close>: the public operations\<close>

text \<open>
  The state of a public operation is the file system; its outcome is the result, the
  requests it sent and the file system it leaves. \<open>raise_opt\<close> turns the outcome of a
  printing routine into a result.
\<close>

definition raise_opt :: "error option \<Rightarrow> error + unit" where
  "raise_opt r = (case r of None \<Rightarrow> Inr () | Some e \<Rightarrow> Inl e)"

definition list_studies ::
  "env \<Rightarrow> client \<Rightarrow> filters \<Rightarrow> bool \<Rightarrow> int option \<Rightarrow> int option \<Rightarrow> path option \<Rightarrow> fs \<Rightarrow>
   request list \<times> (error + frame) \<times> fs"
where
  "list_studies env c search_filters fuzzy limit offset out_dir fs =
     (case query_studies env search_filters fuzzy limit offset of
        (reqs, Inl e) \<Rightarrow> (reqs, Inl e, fs)
      | (reqs, Inr df) \<Rightarrow>
          (case column df ''StudyInstanceUID'' of
             Inl e \<Rightarrow> (reqs, Inl e, fs)
           | Inr lst \<Rightarrow>
               (case raise_opt (print_list env lst ''Available studies'') of
                  Inl e \<Rightarrow> (reqs, Inl e, fs)
                | Inr u \<Rightarrow>
                    (case raise_opt (print_table_summary env df) of
                       Inl e \<Rightarrow> (reqs, Inl e, fs)
                     | Inr u \<Rightarrow>
                         (case write_table env c df out_dir ''available_studies'' fs of
                            (Inl e, fs') \<Rightarrow> (reqs, Inl e, fs')
                          | (Inr u, fs') \<Rightarrow> (reqs, Inr df, fs'))))))"

definition list_series ::
  "env \<Rightarrow> client \<Rightarrow> filters \<Rightarrow> bool \<Rightarrow> int option \<Rightarrow> int option \<Rightarrow> path option \<Rightarrow> fs \<Rightarrow>
   request list \<times> (error + frame) \<times> fs"
where
  "list_series env c search_filters fuzzy limit offset out_dir fs =
     (case query_series env search_filters fuzzy limit offset of
        (reqs, Inl e) \<Rightarrow> (reqs, Inl e, fs)
      | (reqs, Inr df) \<Rightarrow>
          (case column df ''SeriesInstanceUID'' of
             Inl e \<Rightarrow> (reqs, Inl e, fs)
           | Inr lst \<Rightarrow>
               (case raise_opt (print_list env lst ''Available series'') of
                  Inl e \<Rightarrow> (reqs, Inl e, fs)
                | Inr u \<Rightarrow>
                    (case raise_opt (print_table_summary env df) of
                       Inl e \<Rightarrow> (reqs, Inl e, fs)
                     | Inr u \<Rightarrow>
                         (case write_table env c df out_dir ''available_series'' fs of
                            (Inl e, fs') \<Rightarrow> (reqs, Inl e, fs')
                          | (Inr u, fs') \<Rightarrow> (reqs, Inr df, fs'))))))"

text \<open>
  What \<open>download_series\<close>, \<open>download_study\<close> and the two bulk downloads do with the
  table once it is there:
  \<^verbatim>\<open>
  self._print_list(lst=df[column], label=...)
  self._write_table(df=df, out_dir=out_dir, label=...)
  self._print_table_summary(df=df)
  return df
  \<close>
\<close>

definition report_download ::
  "env \<Rightarrow> client \<Rightarrow> frame \<Rightarrow> string \<Rightarrow> string \<Rightarrow> string \<Rightarrow> path option \<Rightarrow> fs \<Rightarrow>
   (error + frame) \<times> fs"
where
  "report_download env c df col list_label table_label out_dir fs =
     (case column df col of
        Inl e \<Rightarrow> (Inl e, fs)
      | Inr lst \<Rightarrow>
          (case raise_opt (print_list env lst list_label) of
             Inl e \<Rightarrow> (Inl e, fs)
           | Inr u \<Rightarrow>
               (case write_table env c df out_dir table_label fs of
                  (Inl e, fs') \<Rightarrow> (Inl e, fs')
                | (Inr u, fs') \<Rightarrow>
                    (case raise_opt (print_table_summary env df) of
                       Inl e \<Rightarrow> (Inl e, fs')
                     | Inr u \<Rightarrow> (Inr df, fs')))))"

definition download_series ::
  "env \<Rightarrow> client \<Rightarrow> val \<Rightarrow> val \<Rightarrow> bool \<Rightarrow> path option \<Rightarrow> bool \<Rightarrow> fs \<Rightarrow>
   request list \<times> (error + frame) \<times> fs"
where
  "download_series env c study_uid series_uid meta_only out_dir forced fs =
     (case retrieve_single_series env study_uid series_uid meta_only of
        (reqs, Inl e) \<Rightarrow> (reqs, Inl e, fs)
      | (reqs, Inr dicoms) \<Rightarrow>
          (case write_instances env c dicoms out_dir forced fs of
             (Inl e, fs') \<Rightarrow> (reqs, Inl e, fs')
           | (Inr df, fs') \<Rightarrow>
               (reqs, report_download env c df ''SeriesInstanceUID'' ''Downloaded series''
                        ''downloaded_series_instances'' out_dir fs')))"

definition download_study ::
  "env \<Rightarrow> client \<Rightarrow> val \<Rightarrow> bool \<Rightarrow> path option \<Rightarrow> bool \<Rightarrow> fs \<Rightarrow>
   request list \<times> (error + frame) \<times> fs"
where
  "download_study env c study_uid meta_only out_dir forced fs =
     (case retrieve_single_study env study_uid meta_only of
        (reqs, Inl e) \<Rightarrow> (reqs, Inl e, fs)
      | (reqs, Inr dicoms) \<Rightarrow>
          (case write_instances env c dicoms out_dir forced fs of
             (Inl e, fs') \<Rightarrow> (reqs, Inl e, fs')
           | (Inr df, fs') \<Rightarrow>
               (reqs, report_download env c df ''SeriesInstanceUID'' ''Downloaded series''
                        ''downloaded_study_instances'' out_dir fs')))"

text \<open>
  The loop of the two bulk downloads, over the rows of the search result: retrieve
  the objects of the row, write them, keep the table.
  \<^verbatim>\<open>
  for i, row in df.iterrows():
      ...
      dicoms = self._retrieve_single_...(...)
      df = self._write_instances(out_dir=out_dir, instances=dicoms,
                                 forced=forced, suppress_progress=True)
      dfs_downloaded.append(df)
  \<close>
  \<open>fetch\<close> is the retrieval of one row.
\<close>

fun download_loop ::
  "env \<Rightarrow> client \<Rightarrow> ('r \<Rightarrow> request list \<times> (error + dataset list)) \<Rightarrow> path option \<Rightarrow> bool \<Rightarrow>
   'r list \<Rightarrow> frame list \<Rightarrow> fs \<Rightarrow> request list \<times> (error + frame list) \<times> fs"
where
  "download_loop env c fetch out_dir forced [] dfs_downloaded fs = ([], Inr dfs_downloaded, fs)"
| "download_loop env c fetch out_dir forced (row # rest) dfs_downloaded fs =
     (case fetch row of
        (reqs, Inl e) \<Rightarrow> (reqs, Inl e, fs)
      | (reqs, Inr dicoms) \<Rightarrow>
          (case write_instances env c dicoms out_dir forced fs of
             (Inl e, fs') \<Rightarrow> (reqs, Inl e, fs')
           | (Inr df, fs') \<Rightarrow>
               (case download_loop env c fetch out_dir forced rest (dfs_downloaded @ [df]) fs' of
                  (reqs', r, fs'') \<Rightarrow> (reqs @ reqs', r, fs''))))"

text \<open>
  After the loop:
  \<^verbatim>\<open>
  df_all = pd.concat(dfs_downloaded, axis=0)
  df_all = sort_frame_by_uid(df_all, by="SOPInstanceUID")
  \<close>
  and the report. A bulk download returns \<open>None\<close> when the search finds nothing.
\<close>

definition finish_download ::
  "env \<Rightarrow> client \<Rightarrow> frame list \<Rightarrow> string \<Rightarrow> string \<Rightarrow> string \<Rightarrow> path option \<Rightarrow> fs \<Rightarrow>
   (error + frame option) \<times> fs"
where
  "finish_download env c dfs_downloaded col list_label table_label out_dir fs =
     (case pd_concat dfs_downloaded of
        Inl e \<Rightarrow> (Inl e, fs)
      | Inr df_cat \<Rightarrow>
          (case sort_frame_by_uid df_cat ''SOPInstanceUID'' of
             Inl e \<Rightarrow> (Inl e, fs)
           | Inr df_all \<Rightarrow>
               (case report_download env c df_all col list_label table_label out_dir fs of
                  (Inl e, fs') \<Rightarrow> (Inl e, fs')
                | (Inr df, fs') \<Rightarrow> (Inr (Some df), fs'))))"

definition search_and_download_studies ::
  "env \<Rightarrow> client \<Rightarrow> filters \<Rightarrow> bool \<Rightarrow> bool \<Rightarrow> int option \<Rightarrow> int option \<Rightarrow> path option \<Rightarrow>
   bool \<Rightarrow> fs \<Rightarrow> request list \<times> (error + frame option) \<times> fs"
where
  "search_and_download_studies env c search_filters meta_only fuzzy limit offset out_dir
     forced fs =
     (case query_studies env search_filters fuzzy limit offset of
        (reqs, Inl e) \<Rightarrow> (reqs, Inl e, fs)
      | (reqs, Inr df) \<Rightarrow>
          if length (rows df) = 0 then (reqs, Inr None, fs)
          else
            (case column df ''StudyInstanceUID'' of
               Inl e \<Rightarrow> (reqs, Inl e, fs)
             | Inr uids \<Rightarrow>
                 (case download_loop env c
                         (\<lambda>study_uid. retrieve_single_study env study_uid meta_only)
                         out_dir forced uids [] fs of
                    (reqs', Inl e, fs') \<Rightarrow> (reqs @ reqs', Inl e, fs')
                  | (reqs', Inr dfs_downloaded, fs') \<Rightarrow>
                      (reqs @ reqs',
                       finish_download env c dfs_downloaded ''StudyInstanceUID''
                         ''Downloaded studies'' ''downloaded_study_instances'' out_dir fs'))))"

definition search_and_download_series ::
  "env \<Rightarrow> client \<Rightarrow> filters \<Rightarrow> bool \<Rightarrow> bool \<Rightarrow> int option \<Rightarrow> int option \<Rightarrow> path option \<Rightarrow>
   bool \<Rightarrow> fs \<Rightarrow> request list \<times> (error + frame option) \<times> fs"
where
  "search_and_download_series env c search_filters meta_only fuzzy limit offset out_dir
     forced fs =
     (case query_series env search_filters fuzzy limit offset of
        (reqs, Inl e) \<Rightarrow> (reqs, Inl e, fs)
      | (reqs, Inr df) \<Rightarrow>
          if length (rows df) = 0 then (reqs, Inr None, fs)
          else
            (case column df ''StudyInstanceUID'' of
               Inl e \<Rightarrow> (reqs, Inl e, fs)
             | Inr study_uids \<Rightarrow>
                 (case column df ''SeriesInstanceUID'' of
                    Inl e \<Rightarrow> (reqs, Inl e, fs)
                  | Inr series_uids \<Rightarrow>
                      (case download_loop env c
                              (\<lambda>(study_uid, series_uid).
                                  retrieve_single_series env study_uid series_uid meta_only)
                              out_dir forced (zip study_uids series_uids) [] fs of
                         (reqs', Inl e, fs') \<Rightarrow> (reqs @ reqs', Inl e, fs')
                       | (reqs', Inr dfs_downloaded, fs') \<Rightarrow>
                           (reqs @ reqs',
                            finish_download env c dfs_downloaded ''SeriesInstanceUID''
                              ''Downloaded series'' ''downloaded_series_instances'' out_dir
                              fs')))))"

section \<open>Sorted tables\<close>

text \<open>
  A table is sorted by an identifier column when every cell of the column has an
  integer-tuple key and the tuples ascend in the lexicographic order.
\<close>

definition uid_sorted :: "frame \<Rightarrow> string \<Rightarrow> bool" where
  "uid_sorted df by =
     (case column df by of
        Inl e \<Rightarrow> False
      | Inr col \<Rightarrow>
          (case map_err uid_key col of
             Inl e \<Rightarrow> False
           | Inr ks \<Rightarrow>
               (case those (map tuple_of ks) of
                  None \<Rightarrow> False
                | Some ts \<Rightarrow> sorted ts)))"

text \<open>The integer tuple of a cell, where the cell has one.\<close>

definition tuple_key :: "val \<Rightarrow> int list" where
  "tuple_key v = (case uid_key v of Inr (KTuple t) \<Rightarrow> t | _ \<Rightarrow> [])"

section \<open>Notions for the file system\<close>

text \<open>
  \<open>extends fs fs'\<close>: every directory of \<open>fs\<close> is a directory of \<open>fs'\<close> and every file
  of \<open>fs\<close> is a file of \<open>fs'\<close> (its content may differ): nothing was removed.
\<close>

definition extends :: "fs \<Rightarrow> fs \<Rightarrow> bool" where
  "extends fs fs' \<longleftrightarrow>
     (\<forall>q. (is_dir fs q \<longrightarrow> is_dir fs' q) \<and> (is_file fs q \<longrightarrow> is_file fs' q))"

text \<open>The entries of \<open>file_sizes\<close> after the loop has gone through a batch.\<close>

definition recorded_sizes :: "env \<Rightarrow> dataset list \<Rightarrow> (val \<times> nat) list \<Rightarrow> (val \<times> nat) list" where
  "recorded_sizes env instances file_sizes =
     fold (\<lambda>inst sizes. AList.update (ds_get inst ''SOPInstanceUID'')
                            (length (dcmwrite env (with_defaults inst))) sizes)
       instances file_sizes"

section \<open>Example inputs\<close>

text \<open>
  A repository that holds nothing, an encoder that writes three bytes, and printing
  routines that never raise.
\<close>

definition example_env :: env where
  "example_env =
     \<lparr>search = (\<lambda>r. Inr []), retrieve = (\<lambda>r. Inr []),
      from_json = (\<lambda>v h. \<lparr>elements = (case v of VDict kvs \<Rightarrow> kvs | _ \<Rightarrow> []),
                            is_little_endian = None, is_implicit_VR = None\<rparr>),
      dcmwrite = (\<lambda>d. [1, 2, 3]), to_csv = (\<lambda>f. [0]), now = ''2020-01-01_00.00.00'',
      print_list = (\<lambda>l s. None), print_table_summary = (\<lambda>f. None)\<rparr>"

text \<open>A repository with two studies of one series each.\<close>

definition example_repository :: env where
  "example_repository =
     example_env\<lparr>search :=
       (\<lambda>r. case r of
               SearchForStudies f z l off k \<Rightarrow>
                 Inr [VDict [(''StudyInstanceUID'', VStr ''1.10'')],
                      VDict [(''StudyInstanceUID'', VStr ''1.9'')]]
             | SearchForSeries u f z l off k \<Rightarrow>
                 Inr [VDict [(''StudyInstanceUID'', u), (''SeriesInstanceUID'', VStr ''7.1'')]]
             | _ \<Rightarrow> Inr [])\<rparr>"

definition example_client :: client where
  "example_client = \<lparr>default_out_dir = [''downloads''], dry_run = False\<rparr>"

definition example_instance :: "string \<Rightarrow> string \<Rightarrow> dataset" where
  "example_instance series sop =
     \<lparr>elements = [(''SeriesInstanceUID'', VStr series), (''SOPInstanceUID'', VStr sop)],
      is_little_endian = None, is_implicit_VR = None\<rparr>"


text \<open>
  A repository whose studies hold two objects each, named after the study.
\<close>

definition example_archive :: env where
  "example_archive =
     example_repository\<lparr>retrieve :=
       (\<lambda>r. case r of
               RetrieveStudy (VStr s) \<Rightarrow>
                 Inr [example_instance s (s @ ''.2''), example_instance s (s @ ''.1'')]
             | RetrieveSeries (VStr s) v \<Rightarrow>
                 Inr [example_instance s (s @ ''.2''), example_instance s (s @ ''.1'')]
             | _ \<Rightarrow> Inr [])\<rparr>"

section \<open>Properties of the utilities\<close>

text \<open>
  C6. \<open>flatten\<close> on a sequence: a sequence of exactly one element gives that
  element; the empty sequence and a sequence of two or more elements are returned
  unchanged.
\<close>

theorem flatten_multi_valued:
  "flatten (VSeq [x]) = Inr x \<and>
   flatten (VSeq []) = Inr (VSeq []) \<and>
   flatten (VSeq (x # y # zs)) = Inr (VSeq (x # y # zs))"
  by (simp add: flatten_def)

text \<open>
  C10. \<open>dicomize_json_results\<close> gives, for either value of \<open>meta_only\<close>, what it
  gives for \<open>True\<close>: every record is converted with the handler that answers a
  bulk-data reference with no bytes.
\<close>

theorem dicomize_json_results_meta_only:
  "dicomize_json_results env data meta_only = dicomize_json_results env data True \<and>
   dicomize_json_results env data meta_only =
     map (\<lambda>d. from_json env d (Some (\<lambda>uri. []))) data"
  by (simp add: dicomize_json_results_def dicomize_json_result_def)

lemma uid_key_failed:
  "those (map py_int (split_on CHR ''.'' s)) = None \<Longrightarrow>
   uid_key (VStr s) = Inl (TypeError ''argument of type ValueError is not iterable'')"
  by (simp add: uid_key_def str_in_exception_def)

text \<open>
  C4. The key of an identifier with a component that is no integer: the handler's
  membership test raises, so the key function raises a \<open>TypeError\<close> and no key is
  produced.
\<close>

theorem uid_key_non_integer_component:
  "uid_key (VStr ''1.2.a'') = Inl (TypeError ''argument of type ValueError is not iterable'')"
  by code_simp

lemma query_series_no_study:
  assumes "search env (SearchForStudies f z l off STUDY_KEYS) = Inr []"
  shows "query_series env f z l off =
           ([SearchForStudies f z l off STUDY_KEYS],
            Inl (ValueError ''No objects to concatenate''))"
  using assms
  by (simp add: query_series_def query_studies_def dicomize_json_results_def
      dicoms_to_frame_def STUDY_KEYS_def DataFrame_def sort_frame_by_uid_def column_def
      sort_by_keys_def pd_concat_def)

text \<open>
  C2. A series search whose study search finds nothing: one request is sent, no
  sub-query follows, and the concatenation of no table raises a \<open>ValueError\<close>.
\<close>

theorem query_series_zero_studies:
  "query_series example_env (Some [(''PatientID'', ''nobody'')]) True None None =
     ([SearchForStudies (Some [(''PatientID'', ''nobody'')]) True None None STUDY_KEYS],
      Inl (ValueError ''No objects to concatenate''))"
  by (rule query_series_no_study) (simp add: example_env_def)

section \<open>Properties of the tables\<close>

lemma update_entries: "set (AList.update k v al) \<subseteq> insert (k, v) (set al)"
  by (induction al) auto

lemma map_of_collect_columns:
  "map_of (collect_columns dicoms kws data) k =
     (if k \<in> set kws then Some (map (\<lambda>d. ds_get d k) dicoms) else map_of data k)"
  by (induction kws arbitrary: data) (auto simp: update_conv')

lemma collect_columns_entries:
  "(k, vs) \<in> set (collect_columns dicoms kws data) \<Longrightarrow>
   (k, vs) \<in> set data \<or> length vs = length dicoms"
proof (induction kws arbitrary: data)
  case Nil
  then show ?case by simp
next
  case (Cons kw kws)
  from Cons.IH [OF Cons.prems [simplified]]
  show ?case using update_entries [of kw "map (\<lambda>d. ds_get d kw) dicoms" data] by auto
qed

lemma collect_columns_nonempty: "kws \<noteq> [] \<Longrightarrow> collect_columns dicoms kws data \<noteq> []"
proof -
  assume "kws \<noteq> []"
  then obtain k where "k \<in> set kws" by (cases kws) auto
  then have "map_of (collect_columns dicoms kws data) k \<noteq> None"
    by (simp add: map_of_collect_columns)
  then show ?thesis by auto
qed

lemma dicoms_to_frame_rows:
  assumes "kws \<noteq> []"
  shows "rows (dicoms_to_frame dicoms (Some kws)) = map (\<lambda>d. map (\<lambda>k. ds_get d k) kws) dicoms"
proof -
  let ?data = "collect_columns dicoms kws []"
  from assms obtain k vs rest where d: "?data = (k, vs) # rest"
    using collect_columns_nonempty [of kws dicoms "[]"] by (cases ?data) auto
  then have "(k, vs) \<in> set ?data" by simp
  then have len: "length vs = length dicoms"
    using collect_columns_entries by fastforce
  have "rows (dicoms_to_frame dicoms (Some kws)) =
          map (\<lambda>i. map (\<lambda>c. case map_of ?data c of None \<Rightarrow> VNone | Some col \<Rightarrow> cell col i) kws)
            [0..<length dicoms]"
    using d len by (simp add: dicoms_to_frame_def DataFrame_def)
  also have "\<dots> = map (\<lambda>d. map (\<lambda>k. ds_get d k) kws) dicoms"
    by (rule nth_equalityI) (auto simp: map_of_collect_columns cell_def)
  finally show ?thesis .
qed

lemma dicoms_to_frame_columns:
  "columns (dicoms_to_frame dicoms keywords) =
     (case keywords of None \<Rightarrow> default_keywords | Some ks \<Rightarrow> ks)"
  by (simp add: dicoms_to_frame_def DataFrame_def Let_def)

text \<open>
  C5 (as amended). For a list of requested field names that is not empty,
  \<open>dicoms_to_frame\<close> gives a table with exactly the requested columns in the
  requested order and one row per record; a field the record lacks is null.
\<close>

theorem dicoms_to_frame_table:
  assumes "keywords \<noteq> []"
  shows "columns (dicoms_to_frame dicoms (Some keywords)) = keywords \<and>
         length (rows (dicoms_to_frame dicoms (Some keywords))) = length dicoms \<and>
         rows (dicoms_to_frame dicoms (Some keywords)) =
           map (\<lambda>d. map (\<lambda>k. case map_of (elements d) k of None \<Rightarrow> VNone | Some v \<Rightarrow> v)
                      keywords) dicoms"
  using dicoms_to_frame_rows [OF assms, of dicoms]
  by (simp add: dicoms_to_frame_columns ds_get_def)

theorem dicoms_to_frame_table_witness:
  "[''A'', ''B'', ''C''] \<noteq> [] \<and>
   columns (dicoms_to_frame [\<lparr>elements = [(''A'', VStr ''x'')], is_little_endian = None,
                               is_implicit_VR = None\<rparr>] (Some [''A'', ''B'', ''C''])) =
     [''A'', ''B'', ''C''] \<and>
   rows (dicoms_to_frame [\<lparr>elements = [(''A'', VStr ''x'')], is_little_endian = None,
                            is_implicit_VR = None\<rparr>] (Some [''A'', ''B'', ''C''])) =
     [[VStr ''x'', VNone, VNone]]"
  using dicoms_to_frame_table [of "[''A'', ''B'', ''C'']"
      "[\<lparr>elements = [(''A'', VStr ''x'')], is_little_endian = None, is_implicit_VR = None\<rparr>]"]
  by simp

text \<open>
  C5 as stated fails for the empty list of field names: the dictionary handed to
  \<open>pd.DataFrame\<close> is then empty, and the table has no row for the one record.
\<close>

theorem dicoms_to_frame_no_fields:
  "length (rows (dicoms_to_frame [example_instance ''1.2'' ''1.2.3''] (Some []))) \<noteq>
   length [example_instance ''1.2'' ''1.2.3'']"
  by (simp add: dicoms_to_frame_def DataFrame_def)

section \<open>Properties of the sort\<close>

lemma py_seq_lt_lexord: "py_seq_lt a b \<longleftrightarrow> (a, b) \<in> lexord {(x, y). x < y}"
  by (induction a b rule: py_seq_lt.induct) auto

lemma uid_key_Inr:
  "uid_key v = Inr k \<Longrightarrow>
   \<exists>s ts. v = VStr s \<and> those (map py_int (split_on CHR ''.'' s)) = Some ts \<and> k = KTuple ts"
  by (auto simp: uid_key_def str_in_exception_def Let_def split: val.splits option.splits)

lemma uid_key_tuple_key: "uid_key v = Inr k \<Longrightarrow> k = KTuple (tuple_key v)"
  by (auto simp: tuple_key_def dest: uid_key_Inr)

lemma map_err_Inr: "map_err f xs = Inr ys \<Longrightarrow> map f xs = map Inr ys"
  by (induction xs arbitrary: ys) (auto split: sum.splits)

lemma map_err_all: "(\<forall>x\<in>set xs. f x = Inr (h x)) \<Longrightarrow> map_err f xs = Inr (map h xs)"
  by (induction xs) auto

lemma map_err_uid_key:
  assumes "map_err uid_key col = Inr ks"
  shows "ks = map (\<lambda>v. KTuple (tuple_key v)) col"
    and "\<forall>v\<in>set col. uid_key v = Inr (KTuple (tuple_key v))"
proof -
  from assms have m: "map uid_key col = map Inr ks" by (rule map_err_Inr)
  then have len: "length ks = length col" by (metis length_map)
  have each: "uid_key (col ! i) = Inr (ks ! i)" if "i < length col" for i
    using m that len by (metis nth_map)
  show "ks = map (\<lambda>v. KTuple (tuple_key v)) col"
    by (rule nth_equalityI) (use len each uid_key_tuple_key in auto)
  show "\<forall>v\<in>set col. uid_key v = Inr (KTuple (tuple_key v))"
    using each uid_key_tuple_key by (metis in_set_conv_nth)
qed

lemma those_tuple_of: "those (map tuple_of (map (\<lambda>v. KTuple (f v)) xs)) = Some (map f xs)"
  by (induction xs) auto

lemma insort_key_pair:
  "insort_key fst (g x, x) (map (\<lambda>y. (g y, y)) ys) = map (\<lambda>y. (g y, y)) (insort_key g x ys)"
  by (induction ys) auto

lemma sort_key_pair:
  "sort_key fst (map (\<lambda>y. (g y, y)) xs) = map (\<lambda>y. (g y, y)) (sort_key g xs)"
  by (induction xs) (auto simp: insort_key_pair)

lemma sort_zip_keys: "map snd (sort_key fst (zip (map g xs) xs)) = sort_key g xs"
proof -
  have "zip (map g xs) xs = map (\<lambda>y. (g y, y)) xs"
    by (induction xs) auto
  then show ?thesis by (simp add: sort_key_pair comp_def)
qed

lemma sort_frame_by_uid_Inr:
  assumes "sort_frame_by_uid df by = Inr df'"
  shows "\<exists>i. index_of by (columns df) = Some i \<and>
             (\<forall>r\<in>set (rows df). uid_key (cell r i) = Inr (KTuple (tuple_key (cell r i)))) \<and>
             rows df' = sort_key (\<lambda>r. tuple_key (cell r i)) (rows df) \<and>
             columns df' = columns df"
proof -
  from assms obtain i where i: "index_of by (columns df) = Some i"
    by (auto simp: sort_frame_by_uid_def column_def split: option.splits)
  let ?col = "map (\<lambda>r. cell r i) (rows df)"
  from assms i obtain ks where ks: "map_err uid_key ?col = Inr ks"
    by (auto simp: sort_frame_by_uid_def column_def split: sum.splits)
  note k = map_err_uid_key [OF ks]
  have t: "those (map tuple_of ks) = Some (map (\<lambda>r. tuple_key (cell r i)) (rows df))"
    using k(1) those_tuple_of [of tuple_key ?col] by (simp add: comp_def)
  have "sort_by_keys ks (rows df) = Inr (sort_key (\<lambda>r. tuple_key (cell r i)) (rows df))"
    using t sort_zip_keys [of "\<lambda>r. tuple_key (cell r i)" "rows df"]
    by (simp add: sort_by_keys_def)
  with assms i ks have "df' = df\<lparr>rows := sort_key (\<lambda>r. tuple_key (cell r i)) (rows df)\<rparr>"
    by (simp add: sort_frame_by_uid_def column_def)
  with i k(2) show ?thesis by auto
qed

lemma uid_sortedI:
  assumes "index_of by (columns df) = Some i"
    and "\<forall>r\<in>set (rows df). uid_key (cell r i) = Inr (KTuple (tuple_key (cell r i)))"
    and "sorted (map (\<lambda>r. tuple_key (cell r i)) (rows df))"
  shows "uid_sorted df by"
proof -
  let ?col = "map (\<lambda>r. cell r i) (rows df)"
  have "map_err uid_key ?col = Inr (map (\<lambda>v. KTuple (tuple_key v)) ?col)"
    by (rule map_err_all) (use assms(2) in auto)
  then show ?thesis
    using assms(1,3) those_tuple_of [of tuple_key ?col]
    by (simp add: uid_sorted_def column_def comp_def)
qed

lemma sort_frame_by_uid_sorted:
  assumes "sort_frame_by_uid df by = Inr df'"
  shows "uid_sorted df' by" and "mset (rows df') = mset (rows df)" and "columns df' = columns df"
proof -
  from sort_frame_by_uid_Inr [OF assms] obtain i where
    i: "index_of by (columns df) = Some i"
    and v: "\<forall>r\<in>set (rows df). uid_key (cell r i) = Inr (KTuple (tuple_key (cell r i)))"
    and r: "rows df' = sort_key (\<lambda>r. tuple_key (cell r i)) (rows df)"
    and c: "columns df' = columns df" by blast
  show "uid_sorted df' by"
    by (rule uid_sortedI [of _ _ i]) (use i v r c in \<open>auto simp: sorted_sort_key\<close>)
  show "mset (rows df') = mset (rows df)" using r by simp
  show "columns df' = columns df" by (rule c)
qed

section \<open>Properties of the file system\<close>

lemma extends_refl: "extends fs fs"
  by (simp add: extends_def)

lemma extends_trans: "extends a b \<Longrightarrow> extends b c \<Longrightarrow> extends a c"
  by (simp add: extends_def)

lemma extends_dir: "extends fs fs' \<Longrightarrow> is_dir fs q \<Longrightarrow> is_dir fs' q"
  by (simp add: extends_def)

lemma extends_file: "extends fs fs' \<Longrightarrow> is_file fs q \<Longrightarrow> is_file fs' q"
  by (simp add: extends_def)



lemma extends_update_dir:
  "\<not> path_exists fs p \<Longrightarrow> extends fs (AList.update p Dir fs)"
  by (auto simp: extends_def is_dir_def is_file_def path_exists_def update_conv')

lemma extends_update_file:
  "\<not> is_dir fs p \<Longrightarrow> extends fs (AList.update p (File b) fs)"
  by (auto simp: extends_def is_dir_def is_file_def update_conv')

lemma wf_fs_update:
  assumes "wf_fs fs" and "p \<noteq> []" and "is_dir fs (tl p)" and "n = Dir \<or> \<not> is_dir fs p"
  shows "wf_fs (AList.update p n fs)"
proof -
  have keep: "is_dir (AList.update p n fs) q" if "is_dir fs q" for q
    using that assms(4) by (auto simp: is_dir_def update_conv')
  have "q \<noteq> [] \<and> is_dir (AList.update p n fs) (tl q)"
    if "(q, m) \<in> set (AList.update p n fs)" for q m
  proof -
    from that update_entries [of p n fs] have "(q, m) = (p, n) \<or> (q, m) \<in> set fs" by auto
    then show ?thesis
    proof
      assume "(q, m) = (p, n)"
      with assms(2,3) keep show ?thesis by simp
    next
      assume "(q, m) \<in> set fs"
      with assms(1) have "q \<noteq> [] \<and> is_dir fs (tl q)"
        by (auto simp: wf_fs_def list_all_iff)
      with keep show ?thesis by simp
    qed
  qed
  then show ?thesis by (auto simp: wf_fs_def list_all_iff)
qed

lemma os_mkdir_Inr:
  assumes "os_mkdir fs p = Inr fs'"
  shows "fs' = AList.update p Dir fs" and "\<not> path_exists fs p" and "p \<noteq> []"
    and "is_dir fs (tl p)"
  using assms by (auto simp: os_mkdir_def split: list.splits if_splits)

lemma os_mkdir_ok:
  assumes "os_mkdir fs p = Inr fs'"
  shows "extends fs fs'" and "is_dir fs' p" and "wf_fs fs \<Longrightarrow> wf_fs fs'"
proof -
  note m = os_mkdir_Inr [OF assms]
  show "extends fs fs'" using m(1,2) by (simp add: extends_update_dir)
  show "is_dir fs' p" using m(1) by (simp add: is_dir_def update_conv')
  show "wf_fs fs'" if "wf_fs fs" using that m by (simp add: wf_fs_update)
qed

lemma mkdir_plain_props:
  assumes "mkdir_plain exist_ok fs p = (r, fs')"
  shows "extends fs fs'" and "wf_fs fs \<Longrightarrow> wf_fs fs'" and "r = Inr u \<Longrightarrow> is_dir fs' p"
  using assms os_mkdir_ok [of fs p]
  by (auto simp: mkdir_plain_def extends_refl split: sum.splits if_splits)

lemma mkdir_parents_props:
  "mkdir_parents exist_ok fs p = (r, fs') \<Longrightarrow>
   extends fs fs' \<and> (wf_fs fs \<longrightarrow> wf_fs fs') \<and> (r = Inr () \<longrightarrow> is_dir fs' p)"
proof (induction p arbitrary: exist_ok r fs')
  case Nil
  then show ?case using mkdir_plain_props [of exist_ok fs "[]" r fs'] by auto
next
  case (Cons c parent)
  show ?case
  proof (cases "os_mkdir fs (c # parent)")
    case (Inr fs1)
    with Cons.prems os_mkdir_ok [OF Inr] show ?thesis by auto
  next
    case (Inl e)
    show ?thesis
    proof (cases "is_not_found e")
      case False
      with Cons.prems Inl show ?thesis by (auto simp: extends_refl split: if_splits)
    next
      case True
      obtain r1 fs1 where p1: "mkdir_parents True fs parent = (r1, fs1)" by force
      note ih = Cons.IH [OF p1]
      show ?thesis
      proof (cases r1)
        case (Inl e1)
        with Cons.prems \<open>os_mkdir fs (c # parent) = Inl e\<close> True p1 ih show ?thesis by auto
      next
        case (Inr u1)
        with Cons.prems \<open>os_mkdir fs (c # parent) = Inl e\<close> True p1
        have "mkdir_plain exist_ok fs1 (c # parent) = (r, fs')" by simp
        from mkdir_plain_props [OF this] ih show ?thesis
          by (auto intro: extends_trans)
      qed
    qed
  qed
qed

lemma ensure_dir_props:
  assumes "ensure_dir fs p forced = (r, fs')"
  shows "extends fs fs'" and "wf_fs fs \<Longrightarrow> wf_fs fs'" and "r = Inr ok \<Longrightarrow> is_dir fs' p \<and> ok"
proof -
  obtain r1 fs1 where m: "mkdir_parents forced fs p = (r1, fs1)" by force
  note pr = mkdir_parents_props [OF m]
  show "extends fs fs'" using assms m pr
    by (auto simp: ensure_dir_def extends_refl split: if_splits sum.splits)
  show "wf_fs fs'" if "wf_fs fs" using that assms m pr
    by (auto simp: ensure_dir_def split: if_splits sum.splits)
  show "is_dir fs' p \<and> ok" if "r = Inr ok" using that assms m pr
    by (auto simp: ensure_dir_def split: if_splits sum.splits)
qed


lemma write_file_Inr:
  assumes "write_file fs p b = Inr fs'"
  shows "fs' = AList.update p (File b) fs" and "p \<noteq> []" and "is_dir fs (tl p)"
    and "\<not> is_dir fs p"
  using assms by (auto simp: write_file_def split: list.splits if_splits)

lemma write_file_ok:
  assumes "write_file fs p b = Inr fs'"
  shows "extends fs fs'" and "is_file fs' p" and "wf_fs fs \<Longrightarrow> wf_fs fs'"
proof -
  note w = write_file_Inr [OF assms]
  show "extends fs fs'" using w(1,4) by (simp add: extends_update_file)
  show "is_file fs' p" using w(1,2) by (simp add: is_file_def update_conv')
  show "wf_fs fs'" if "wf_fs fs" using that w by (simp add: wf_fs_update)
qed


lemma ensure_ouput_dir_props:
  assumes "ensure_ouput_dir c fs out_dir forced = (r, fs')"
  shows "extends fs fs'" and "wf_fs fs \<Longrightarrow> wf_fs fs'"
    and "r = Inr out \<Longrightarrow> out = output_root c out_dir \<and> is_dir fs' out"
proof -
  obtain r1 fs1 where e: "ensure_dir fs (output_root c out_dir) forced = (r1, fs1)" by force
  note pr = ensure_dir_props [OF e]
  show "extends fs fs'" using assms e pr(1)
    by (auto simp: ensure_ouput_dir_def split: sum.splits if_splits)
  show "wf_fs fs'" if "wf_fs fs" using that assms e pr(2)
    by (auto simp: ensure_ouput_dir_def split: sum.splits if_splits)
  show "out = output_root c out_dir \<and> is_dir fs' out" if "r = Inr out"
    using that assms e pr(3)
    by (auto simp: ensure_ouput_dir_def split: sum.splits if_splits)
qed


section \<open>Properties of the writing loop\<close>



lemma write_instance_props:
  assumes "write_instance env out forced fs inst = (r, fs')"
  shows "extends fs fs'" and "wf_fs fs \<Longrightarrow> wf_fs fs'"
    and "r = Inr x \<Longrightarrow>
           x = (ds_get inst ''SOPInstanceUID'', length (dcmwrite env (with_defaults inst))) \<and>
           (\<exists>p. instance_path out inst = Inr p \<and> is_file fs' p \<and> is_dir fs' (tl p))"
proof -
  show "extends fs fs'"
  proof (cases "instance_path out inst")
    case (Inl e)
    with assms show ?thesis by (simp add: write_instance_def extends_refl)
  next
    case (Inr p)
    obtain r1 fs1 where e: "ensure_dir fs (tl p) forced = (r1, fs1)" by force
    note pr = ensure_dir_props [OF e]
    show ?thesis using assms Inr e pr(1)
      by (auto simp: write_instance_def Let_def split: sum.splits if_splits
          dest!: write_file_ok(1) intro: extends_trans)
  qed
  show "wf_fs fs'" if "wf_fs fs"
  proof (cases "instance_path out inst")
    case (Inl e)
    with assms that show ?thesis by (simp add: write_instance_def)
  next
    case (Inr p)
    obtain r1 fs1 where e: "ensure_dir fs (tl p) forced = (r1, fs1)" by force
    note pr = ensure_dir_props [OF e]
    show ?thesis using assms Inr e pr(2) that
      by (auto simp: write_instance_def Let_def split: sum.splits if_splits
          dest: write_file_ok(3))
  qed
  show "x = (ds_get inst ''SOPInstanceUID'', length (dcmwrite env (with_defaults inst))) \<and>
        (\<exists>p. instance_path out inst = Inr p \<and> is_file fs' p \<and> is_dir fs' (tl p))"
    if "r = Inr x"
  proof (cases "instance_path out inst")
    case (Inl e)
    with assms that show ?thesis by (simp add: write_instance_def)
  next
    case (Inr p)
    obtain r1 fs1 where e: "ensure_dir fs (tl p) forced = (r1, fs1)" by force
    note pr = ensure_dir_props [OF e]
    from assms Inr e that obtain ok where ok: "r1 = Inr ok"
      and w: "write_file fs1 p (dcmwrite env (with_defaults inst)) = Inr fs'"
      and x: "x = (ds_get inst ''SOPInstanceUID'', length (dcmwrite env (with_defaults inst)))"
      by (auto simp: write_instance_def Let_def split: sum.splits if_splits)
    from pr(3) [OF ok] have "is_dir fs1 (tl p)" by simp
    with write_file_ok(1) [OF w] have "is_dir fs' (tl p)" by (rule extends_dir)
    with Inr x write_file_ok(2) [OF w] show ?thesis by simp
  qed
qed




lemma write_loop_props:
  "write_loop env out forced insts sizes fs = (r, fs') \<Longrightarrow>
   extends fs fs' \<and> (wf_fs fs \<longrightarrow> wf_fs fs') \<and>
   (\<forall>s. r = Inr s \<longrightarrow> s = recorded_sizes env insts sizes \<and>
      (\<forall>i\<in>set insts. \<exists>p. instance_path out i = Inr p \<and> is_file fs' p \<and> is_dir fs' (tl p)))"
proof (induction insts arbitrary: sizes fs)
  case Nil
  then show ?case by (auto simp: extends_refl recorded_sizes_def)
next
  case (Cons inst rest)
  obtain r1 fs1 where w: "write_instance env out forced fs inst = (r1, fs1)" by force
  note pr = write_instance_props [OF w]
  show ?case
  proof (cases r1)
    case (Inl e)
    with Cons.prems w pr show ?thesis by auto
  next
    case (Inr x)
    from pr(3) [OF Inr] obtain p where
      x: "x = (ds_get inst ''SOPInstanceUID'', length (dcmwrite env (with_defaults inst)))"
      and p: "instance_path out inst = Inr p" "is_file fs1 p" "is_dir fs1 (tl p)" by blast
    from Cons.prems w Inr x
    have l: "write_loop env out forced rest
               (AList.update (ds_get inst ''SOPInstanceUID'')
                  (length (dcmwrite env (with_defaults inst))) sizes) fs1 = (r, fs')"
      by simp
    note ih = Cons.IH [OF l]
    from ih pr(1) have e: "extends fs fs'" by (auto intro: extends_trans)
    from ih have e1: "extends fs1 fs'" by simp
    from ih pr(2) have wf: "wf_fs fs \<longrightarrow> wf_fs fs'" by simp
    have "s = recorded_sizes env (inst # rest) sizes \<and>
          (\<forall>i\<in>set (inst # rest). \<exists>p. instance_path out i = Inr p \<and> is_file fs' p \<and>
              is_dir fs' (tl p))" if "r = Inr s" for s
      using that ih p e1 by (auto simp: recorded_sizes_def dest: extends_dir extends_file)
    with e wf show ?thesis by blast
  qed
qed


section \<open>Properties of the output writer\<close>

lemma write_instances_dry:
  "dry_run c \<Longrightarrow>
   write_instances env c insts out_dir forced fs =
     (sort_frame_by_uid (dicoms_to_frame insts (Some INSTANCE_KEYS)) ''SOPInstanceUID'', fs)"
  by (simp add: write_instances_def split: sum.splits)

lemma write_instances_Inr:
  assumes "\<not> dry_run c" and "write_instances env c insts out_dir forced fs = (Inr df', fs')"
  shows "\<exists>df fs1 sizes.
           sort_frame_by_uid (dicoms_to_frame insts (Some INSTANCE_KEYS)) ''SOPInstanceUID'' = Inr df \<and>
           ensure_ouput_dir c fs out_dir forced = (Inr (output_root c out_dir), fs1) \<and>
           write_loop env (output_root c out_dir) forced insts [] fs1 = (Inr sizes, fs') \<and>
           merge_file_sizes df sizes = Inr df'"
proof -
  from assms obtain df where
    df: "sort_frame_by_uid (dicoms_to_frame insts (Some INSTANCE_KEYS)) ''SOPInstanceUID'' = Inr df"
    by (auto simp: write_instances_def split: sum.splits)
  obtain r1 fs1 where e: "ensure_ouput_dir c fs out_dir forced = (r1, fs1)" by force
  from assms df e obtain out where r1: "r1 = Inr out"
    by (auto simp: write_instances_def split: sum.splits)
  from ensure_ouput_dir_props(3) [OF e r1] have out: "out = output_root c out_dir" by simp
  obtain r2 fs2 where l: "write_loop env out forced insts [] fs1 = (r2, fs2)" by force
  from assms df e r1 l obtain sizes where "r2 = Inr sizes" "fs2 = fs'"
    "merge_file_sizes df sizes = Inr df'"
    by (auto simp: write_instances_def split: sum.splits)
  with df e r1 out l show ?thesis by auto
qed


lemma index_of_SOP: "index_of ''SOPInstanceUID'' INSTANCE_KEYS = Some 2"
  by (simp add: INSTANCE_KEYS_def)

lemma instance_table:
  assumes "sort_frame_by_uid (dicoms_to_frame insts (Some INSTANCE_KEYS)) ''SOPInstanceUID'' = Inr df"
  shows "columns df = INSTANCE_KEYS"
    and "\<forall>r\<in>set (rows df). \<exists>d\<in>set insts. r = map (\<lambda>k. ds_get d k) INSTANCE_KEYS"
    and "length (rows df) = length insts"
    and "uid_sorted df ''SOPInstanceUID''"
proof -
  have ne: "INSTANCE_KEYS \<noteq> []" by (simp add: INSTANCE_KEYS_def)
  note s = sort_frame_by_uid_sorted [OF assms]
  show "columns df = INSTANCE_KEYS" using s(3) by (simp add: dicoms_to_frame_columns)
  from s(2) have "set (rows df) = set (rows (dicoms_to_frame insts (Some INSTANCE_KEYS)))"
    by (rule mset_eq_setD)
  then show "\<forall>r\<in>set (rows df). \<exists>d\<in>set insts. r = map (\<lambda>k. ds_get d k) INSTANCE_KEYS"
    by (auto simp: dicoms_to_frame_rows [OF ne])
  from s(2) have "length (rows df) = length (rows (dicoms_to_frame insts (Some INSTANCE_KEYS)))"
    by (rule mset_eq_length)
  then show "length (rows df) = length insts" by (simp add: dicoms_to_frame_rows [OF ne])
  show "uid_sorted df ''SOPInstanceUID''" by (rule s(1))
qed

lemma instance_row_cell:
  "cell (map (\<lambda>k. ds_get d k) INSTANCE_KEYS) 2 = ds_get d ''SOPInstanceUID''"
  by (simp add: cell_def INSTANCE_KEYS_def)

lemma recorded_sizes_dom:
  "map_of (recorded_sizes env insts sizes) k \<noteq> None \<longleftrightarrow>
     k \<in> (\<lambda>i. ds_get i ''SOPInstanceUID'') ` set insts \<or> map_of sizes k \<noteq> None"
  by (induction insts arbitrary: sizes) (auto simp: recorded_sizes_def update_conv')

lemma merge_file_sizes_all:
  assumes "index_of ''SOPInstanceUID'' (columns df) = Some i"
    and "\<forall>r\<in>set (rows df). map_of sizes (cell r i) \<noteq> None"
  shows "merge_file_sizes df sizes =
           Inr \<lparr>columns = columns df @ [''FileSize''],
                rows = map (\<lambda>r. r @ [VInt (int (the (map_of sizes (cell r i))))]) (rows df)\<rparr>"
proof -
  have "concat (map (\<lambda>r. case map_of sizes (cell r i) of None \<Rightarrow> []
                          | Some n \<Rightarrow> [r @ [VInt (int n)]]) rs) =
        map (\<lambda>r. r @ [VInt (int (the (map_of sizes (cell r i))))]) rs"
    if "\<forall>r\<in>set rs. map_of sizes (cell r i) \<noteq> None" for rs
    using that by (induction rs) auto
  from this [OF assms(2)] assms(1) show ?thesis by (simp add: merge_file_sizes_def)
qed

lemma merged_table:
  assumes "sort_frame_by_uid (dicoms_to_frame insts (Some INSTANCE_KEYS)) ''SOPInstanceUID'' = Inr df"
    and "merge_file_sizes df (recorded_sizes env insts []) = Inr df'"
  shows "columns df' = columns df @ [''FileSize'']"
    and "map butlast (rows df') = rows df"
    and "uid_sorted df' ''SOPInstanceUID''"
proof -
  note t = instance_table [OF assms(1)]
  let ?sizes = "recorded_sizes env insts []"
  have i: "index_of ''SOPInstanceUID'' (columns df) = Some 2"
    using t(1) by (simp add: index_of_SOP)
  have all: "\<forall>r\<in>set (rows df). map_of ?sizes (cell r 2) \<noteq> None"
  proof
    fix r assume "r \<in> set (rows df)"
    with t(2) obtain d where d: "d \<in> set insts" "r = map (\<lambda>k. ds_get d k) INSTANCE_KEYS"
      by blast
    then have "cell r 2 = ds_get d ''SOPInstanceUID''" by (simp add: instance_row_cell)
    with d(1) show "map_of ?sizes (cell r 2) \<noteq> None"
      unfolding recorded_sizes_dom by blast
  qed
  from merge_file_sizes_all [OF i all] assms(2)
  have df': "df' = \<lparr>columns = columns df @ [''FileSize''],
                    rows = map (\<lambda>r. r @ [VInt (int (the (map_of ?sizes (cell r 2))))]) (rows df)\<rparr>"
    by simp
  show "columns df' = columns df @ [''FileSize'']" using df' by simp
  show "map butlast (rows df') = rows df" using df' by (simp add: comp_def)
  have len: "\<forall>r\<in>set (rows df). 2 < length r"
    using t(2) by (auto simp: INSTANCE_KEYS_def)
  have c: "cell (r @ [x]) 2 = cell r 2" if "r \<in> set (rows df)" for r x
    using that len by (auto simp: cell_def nth_append)
  from t(4) obtain ks ts where
    k: "map_err uid_key (map (\<lambda>r. cell r 2) (rows df)) = Inr ks"
    and ts: "those (map tuple_of ks) = Some ts" "sorted ts"
    using i by (auto simp: uid_sorted_def column_def split: sum.splits option.splits)
  have i': "index_of ''SOPInstanceUID'' (columns df') = Some 2"
    using df' t(1) by (simp add: INSTANCE_KEYS_def)
  have "map (\<lambda>r. cell r 2) (rows df') = map (\<lambda>r. cell r 2) (rows df)"
    using df' c by (simp add: comp_def)
  with i' k ts show "uid_sorted df' ''SOPInstanceUID''"
    by (simp add: uid_sorted_def column_def)
qed

lemma write_instances_table:
  assumes "\<not> dry_run c" and "write_instances env c insts out_dir forced fs = (Inr df', fs')"
  shows "\<exists>df. sort_frame_by_uid (dicoms_to_frame insts (Some INSTANCE_KEYS)) ''SOPInstanceUID'' = Inr df \<and>
              merge_file_sizes df (recorded_sizes env insts []) = Inr df'"
proof -
  from write_instances_Inr [OF assms] obtain df fs1 sizes where
    df: "sort_frame_by_uid (dicoms_to_frame insts (Some INSTANCE_KEYS)) ''SOPInstanceUID'' = Inr df"
    and l: "write_loop env (output_root c out_dir) forced insts [] fs1 = (Inr sizes, fs')"
    and m: "merge_file_sizes df sizes = Inr df'" by blast
  from write_loop_props [OF l] have "sizes = recorded_sizes env insts []" by simp
  with df m show ?thesis by auto
qed

lemma write_instances_sorted:
  assumes "write_instances env c insts out_dir forced fs = (Inr df', fs')"
  shows "uid_sorted df' ''SOPInstanceUID''"
proof (cases "dry_run c")
  case True
  with assms instance_table(4) [of insts df'] show ?thesis
    by (simp add: write_instances_dry)
next
  case False
  from write_instances_table [OF False assms] merged_table(3) show ?thesis by blast
qed




text \<open>
  The loop assigns the two flags on the objects it is given. A later call with the
  same objects therefore sees them with the flags set; its outcome is the same.
\<close>

lemma with_defaults_idem: "with_defaults (with_defaults inst) = with_defaults inst"
  by (simp add: with_defaults_def split: option.splits)

lemma ds_get_with_defaults: "ds_get (with_defaults inst) k = ds_get inst k"
  by (simp add: with_defaults_def ds_get_def)

lemma ds_attr_with_defaults: "ds_attr (with_defaults inst) k = ds_attr inst k"
  by (simp add: with_defaults_def ds_attr_def)

lemma instance_path_with_defaults:
  "instance_path out (with_defaults inst) = instance_path out inst"
  by (simp add: instance_path_def ds_attr_with_defaults cong: sum.case_cong)

lemma write_instance_with_defaults:
  "write_instance env out forced fs (with_defaults inst) = write_instance env out forced fs inst"
  by (simp add: write_instance_def instance_path_with_defaults with_defaults_idem
      ds_get_with_defaults cong: sum.case_cong prod.case_cong if_cong)

lemma write_loop_with_defaults:
  "write_loop env out forced (map with_defaults insts) sizes fs =
   write_loop env out forced insts sizes fs"
  by (induction insts arbitrary: sizes fs)
    (simp_all add: write_instance_with_defaults cong: sum.case_cong prod.case_cong)

lemma collect_columns_with_defaults:
  "collect_columns (map with_defaults dicoms) kws data = collect_columns dicoms kws data"
  by (induction kws arbitrary: data) (simp_all add: comp_def ds_get_with_defaults)

lemma write_instances_with_defaults:
  "write_instances env c (map with_defaults insts) out_dir forced fs =
   write_instances env c insts out_dir forced fs"
  by (simp add: write_instances_def dicoms_to_frame_def collect_columns_with_defaults
      write_loop_with_defaults cong: sum.case_cong prod.case_cong if_cong)

section \<open>Properties of the searches and downloads\<close>


lemma query_studies_sorted:
  "query_studies env f z l off = (reqs, Inr df) \<Longrightarrow> uid_sorted df ''StudyInstanceUID''"
  by (auto simp: query_studies_def Let_def split: sum.splits dest: sort_frame_by_uid_sorted(1))




lemma query_series_sorted:
  "query_series env f z l off = (reqs, Inr df) \<Longrightarrow> uid_sorted df ''SeriesInstanceUID''"
  by (auto simp: query_series_def split: prod.splits sum.splits
      dest: sort_frame_by_uid_sorted(1))

lemma list_studies_sorted:
  "list_studies env c f z l off out_dir fs = (reqs, Inr df, fs') \<Longrightarrow>
   uid_sorted df ''StudyInstanceUID''"
  by (auto simp: list_studies_def split: prod.splits sum.splits dest: query_studies_sorted)

lemma list_series_sorted:
  "list_series env c f z l off out_dir fs = (reqs, Inr df, fs') \<Longrightarrow>
   uid_sorted df ''SeriesInstanceUID''"
  by (auto simp: list_series_def split: prod.splits sum.splits dest: query_series_sorted)

lemma report_download_table:
  "report_download env c df col l1 l2 out_dir fs = (Inr df', fs') \<Longrightarrow> df' = df"
  by (auto simp: report_download_def split: prod.splits sum.splits)

lemma download_series_sorted:
  "download_series env c u v m out_dir forced fs = (reqs, Inr df, fs') \<Longrightarrow>
   uid_sorted df ''SOPInstanceUID''"
  by (auto simp: download_series_def split: prod.splits sum.splits
      dest!: report_download_table write_instances_sorted)

lemma download_study_sorted:
  "download_study env c u m out_dir forced fs = (reqs, Inr df, fs') \<Longrightarrow>
   uid_sorted df ''SOPInstanceUID''"
  by (auto simp: download_study_def split: prod.splits sum.splits
      dest!: report_download_table write_instances_sorted)

lemma finish_download_sorted:
  "finish_download env c dfs col l1 l2 out_dir fs = (Inr (Some df), fs') \<Longrightarrow>
   uid_sorted df ''SOPInstanceUID''"
  by (auto simp: finish_download_def split: prod.splits sum.splits
      dest!: report_download_table sort_frame_by_uid_sorted(1))

lemma search_and_download_studies_sorted:
  "search_and_download_studies env c f m z l off out_dir forced fs = (reqs, Inr (Some df), fs') \<Longrightarrow>
   uid_sorted df ''SOPInstanceUID''"
  by (auto simp: search_and_download_studies_def split: prod.splits sum.splits if_splits
      dest!: finish_download_sorted)

lemma search_and_download_series_sorted:
  "search_and_download_series env c f m z l off out_dir forced fs = (reqs, Inr (Some df), fs') \<Longrightarrow>
   uid_sorted df ''SOPInstanceUID''"
  by (auto simp: search_and_download_series_def split: prod.splits sum.splits if_splits
      dest!: finish_download_sorted)

lemma uid_key_tuple:
  "those (map py_int (split_on CHR ''.'' s)) = Some ts \<Longrightarrow> uid_key (VStr s) = Inr (KTuple ts)"
  by (simp add: uid_key_def)

section \<open>The claims about the writer, the searches and the sort\<close>





text \<open>
  C7. In dry-run mode \<open>_write_instances\<close> leaves the file system as it is and
  returns the sorted table of the batch, whose columns are \<open>INSTANCE_KEYS\<close> (no
  \<open>FileSize\<close>), one row per object; the table of the same call outside dry-run mode
  has the same rows, each with the size appended, under the same columns and
  \<open>FileSize\<close>. \<open>_write_table\<close> in dry-run mode creates no file.
\<close>

theorem dry_run_writes_nothing:
  assumes "dry_run c"
  shows
    "write_instances env c insts out_dir forced fs =
       (sort_frame_by_uid (dicoms_to_frame insts (Some INSTANCE_KEYS)) ''SOPInstanceUID'', fs) \<and>
     (fst (write_instances env c insts out_dir forced fs) = Inr df \<longrightarrow>
        columns df = INSTANCE_KEYS \<and> ''FileSize'' \<notin> set (columns df) \<and>
        length (rows df) = length insts) \<and>
     (write_instances env (c\<lparr>dry_run := False\<rparr>) insts out_dir forced fs = (Inr df', fs') \<longrightarrow>
        (\<exists>t. write_instances env c insts out_dir forced fs = (Inr t, fs) \<and>
             columns df' = columns t @ [''FileSize''] \<and>
             map butlast (rows df') = rows t)) \<and>
     write_table env c tbl out_dir' label fs = (Inr (), fs)"
proof -
  let ?t = "sort_frame_by_uid (dicoms_to_frame insts (Some INSTANCE_KEYS)) ''SOPInstanceUID''"
  have dry: "write_instances env c insts out_dir forced fs = (?t, fs)"
    using assms by (rule write_instances_dry)
  have nofs: "''FileSize'' \<notin> set INSTANCE_KEYS" by (simp add: INSTANCE_KEYS_def)
  have 2: "columns df = INSTANCE_KEYS \<and> ''FileSize'' \<notin> set (columns df) \<and>
      length (rows df) = length insts"
    if "fst (write_instances env c insts out_dir forced fs) = Inr df"
    using that dry instance_table(1,3) [of insts df] nofs by simp
  have 3: "\<exists>t. write_instances env c insts out_dir forced fs = (Inr t, fs) \<and>
             columns df' = columns t @ [''FileSize''] \<and> map butlast (rows df') = rows t"
    if w: "write_instances env (c\<lparr>dry_run := False\<rparr>) insts out_dir forced fs = (Inr df', fs')"
  proof -
    have "\<not> dry_run (c\<lparr>dry_run := False\<rparr>)" by simp
    from write_instances_table [OF this w] obtain t where
      t: "?t = Inr t" "merge_file_sizes t (recorded_sizes env insts []) = Inr df'" by blast
    from merged_table(1,2) [OF t] dry t(1) show ?thesis by simp
  qed
  have 4: "write_table env c tbl out_dir' label fs = (Inr (), fs)"
    using assms by (simp add: write_table_def)
  from dry 2 3 4 show ?thesis by blast
qed



text \<open>
  C1. For two identifiers whose components all parse as integers, the keys are
  the tuples of the integers, and the first key is less than the second exactly when
  the first tuple is lexicographically less. \<open>sort_frame_by_uid\<close> returns the rows
  it was given, sorted by this key; and every table a search or a download returns
  is sorted by the key of its identifier column.
\<close>

theorem uid_sort_order:
  "(those (map py_int (split_on CHR ''.'' A)) = Some a \<longrightarrow>
    those (map py_int (split_on CHR ''.'' B)) = Some b \<longrightarrow>
      uid_key (VStr A) = Inr (KTuple a) \<and> uid_key (VStr B) = Inr (KTuple b) \<and>
      key_lt (KTuple a) (KTuple b) = Inr ((a, b) \<in> lexord {(x, y). x < y})) \<and>
   (sort_frame_by_uid df col = Inr df' \<longrightarrow>
      uid_sorted df' col \<and> mset (rows df') = mset (rows df) \<and> columns df' = columns df) \<and>
   (snd (query_studies env f z l off) = Inr t1 \<longrightarrow> uid_sorted t1 ''StudyInstanceUID'') \<and>
   (snd (query_series env f z l off) = Inr t2 \<longrightarrow> uid_sorted t2 ''SeriesInstanceUID'') \<and>
   (fst (snd (list_studies env c f z l off out_dir fs)) = Inr t3 \<longrightarrow>
      uid_sorted t3 ''StudyInstanceUID'') \<and>
   (fst (snd (list_series env c f z l off out_dir fs)) = Inr t4 \<longrightarrow>
      uid_sorted t4 ''SeriesInstanceUID'') \<and>
   (fst (write_instances env c insts out_dir forced fs) = Inr t5 \<longrightarrow>
      uid_sorted t5 ''SOPInstanceUID'') \<and>
   (fst (snd (download_series env c u v m out_dir forced fs)) = Inr t6 \<longrightarrow>
      uid_sorted t6 ''SOPInstanceUID'') \<and>
   (fst (snd (download_study env c u m out_dir forced fs)) = Inr t7 \<longrightarrow>
      uid_sorted t7 ''SOPInstanceUID'') \<and>
   (fst (snd (search_and_download_studies env c f m z l off out_dir forced fs)) =
      Inr (Some t8) \<longrightarrow> uid_sorted t8 ''SOPInstanceUID'') \<and>
   (fst (snd (search_and_download_series env c f m z l off out_dir forced fs)) =
      Inr (Some t9) \<longrightarrow> uid_sorted t9 ''SOPInstanceUID'')"
proof -
  have 1: "uid_sorted t1 ''StudyInstanceUID''" if "snd (query_studies env f z l off) = Inr t1"
    using that query_studies_sorted [of env f z l off _ t1]
    by (cases "query_studies env f z l off") simp
  have 2: "uid_sorted t2 ''SeriesInstanceUID''" if "snd (query_series env f z l off) = Inr t2"
    using that query_series_sorted [of env f z l off _ t2]
    by (cases "query_series env f z l off") simp
  have 3: "uid_sorted t3 ''StudyInstanceUID''"
    if "fst (snd (list_studies env c f z l off out_dir fs)) = Inr t3"
    using that list_studies_sorted [of env c f z l off out_dir fs _ t3]
    by (cases "list_studies env c f z l off out_dir fs") auto
  have 4: "uid_sorted t4 ''SeriesInstanceUID''"
    if "fst (snd (list_series env c f z l off out_dir fs)) = Inr t4"
    using that list_series_sorted [of env c f z l off out_dir fs _ t4]
    by (cases "list_series env c f z l off out_dir fs") auto
  have 5: "uid_sorted t5 ''SOPInstanceUID''"
    if "fst (write_instances env c insts out_dir forced fs) = Inr t5"
    using that write_instances_sorted [of env c insts out_dir forced fs t5]
    by (cases "write_instances env c insts out_dir forced fs") simp
  have 6: "uid_sorted t6 ''SOPInstanceUID''"
    if "fst (snd (download_series env c u v m out_dir forced fs)) = Inr t6"
    using that download_series_sorted [of env c u v m out_dir forced fs _ t6]
    by (cases "download_series env c u v m out_dir forced fs") auto
  have 7: "uid_sorted t7 ''SOPInstanceUID''"
    if "fst (snd (download_study env c u m out_dir forced fs)) = Inr t7"
    using that download_study_sorted [of env c u m out_dir forced fs _ t7]
    by (cases "download_study env c u m out_dir forced fs") auto
  have 8: "uid_sorted t8 ''SOPInstanceUID''"
    if "fst (snd (search_and_download_studies env c f m z l off out_dir forced fs)) =
          Inr (Some t8)"
    using that search_and_download_studies_sorted [of env c f m z l off out_dir forced fs _ t8]
    by (cases "search_and_download_studies env c f m z l off out_dir forced fs") auto
  have 9: "uid_sorted t9 ''SOPInstanceUID''"
    if "fst (snd (search_and_download_series env c f m z l off out_dir forced fs)) =
          Inr (Some t9)"
    using that search_and_download_series_sorted [of env c f m z l off out_dir forced fs _ t9]
    by (cases "search_and_download_series env c f m z l off out_dir forced fs") auto
  show ?thesis
    using uid_key_tuple [of A a] uid_key_tuple [of B b] py_seq_lt_lexord [of a b]
      sort_frame_by_uid_sorted [of df col df'] 1 2 3 4 5 6 7 8 9
    by simp
qed

section \<open>The claims at concrete inputs\<close>



theorem dry_run_writes_nothing_witness:
  "dry_run (example_client\<lparr>dry_run := True\<rparr>) \<and>
   write_instances example_env (example_client\<lparr>dry_run := True\<rparr>)
       [example_instance ''1.2'' ''1.2.10'', example_instance ''1.2'' ''1.2.3''] None False [] =
     (sort_frame_by_uid
        (dicoms_to_frame [example_instance ''1.2'' ''1.2.10'', example_instance ''1.2'' ''1.2.3'']
           (Some INSTANCE_KEYS)) ''SOPInstanceUID'', []) \<and>
   fst (write_instances example_env (example_client\<lparr>dry_run := True\<rparr>)
       [example_instance ''1.2'' ''1.2.10'', example_instance ''1.2'' ''1.2.3''] None False []) =
     Inr \<lparr>columns = INSTANCE_KEYS,
          rows = [[VNone, VStr ''1.2'', VStr ''1.2.3'', VNone, VNone, VNone],
                  [VNone, VStr ''1.2'', VStr ''1.2.10'', VNone, VNone, VNone]]\<rparr> \<and>
   ''FileSize'' \<notin> set (columns \<lparr>columns = INSTANCE_KEYS,
          rows = [[VNone, VStr ''1.2'', VStr ''1.2.3'', VNone, VNone, VNone],
                  [VNone, VStr ''1.2'', VStr ''1.2.10'', VNone, VNone, VNone]]\<rparr>) \<and>
   write_instances example_env (example_client\<lparr>dry_run := True, dry_run := False\<rparr>)
       [example_instance ''1.2'' ''1.2.10'', example_instance ''1.2'' ''1.2.3''] None False [] =
     (Inr \<lparr>columns = INSTANCE_KEYS @ [''FileSize''],
           rows = [[VNone, VStr ''1.2'', VStr ''1.2.3'', VNone, VNone, VNone, VInt 3],
                   [VNone, VStr ''1.2'', VStr ''1.2.10'', VNone, VNone, VNone, VInt 3]]\<rparr>,
      [([''downloads''], Dir), ([''1.2'', ''downloads''], Dir),
       ([''1.2.10.dcm'', ''1.2'', ''downloads''], File [1, 2, 3]),
       ([''1.2.3.dcm'', ''1.2'', ''downloads''], File [1, 2, 3])]) \<and>
   (\<exists>t. write_instances example_env (example_client\<lparr>dry_run := True\<rparr>)
            [example_instance ''1.2'' ''1.2.10'', example_instance ''1.2'' ''1.2.3''] None False [] =
          (Inr t, []) \<and>
        columns \<lparr>columns = INSTANCE_KEYS @ [''FileSize''],
           rows = [[VNone, VStr ''1.2'', VStr ''1.2.3'', VNone, VNone, VNone, VInt 3],
                   [VNone, VStr ''1.2'', VStr ''1.2.10'', VNone, VNone, VNone, VInt 3]]\<rparr> =
          columns t @ [''FileSize''] \<and>
        map butlast (rows \<lparr>columns = INSTANCE_KEYS @ [''FileSize''],
           rows = [[VNone, VStr ''1.2'', VStr ''1.2.3'', VNone, VNone, VNone, VInt 3],
                   [VNone, VStr ''1.2'', VStr ''1.2.10'', VNone, VNone, VNone, VInt 3]]\<rparr>) =
          rows t) \<and>
   write_table example_env (example_client\<lparr>dry_run := True\<rparr>)
       \<lparr>columns = INSTANCE_KEYS, rows = []\<rparr> None ''downloaded_series_instances'' [] =
     (Inr (), [])"
proof -
  let ?c = "example_client\<lparr>dry_run := True\<rparr>"
  let ?insts = "[example_instance ''1.2'' ''1.2.10'', example_instance ''1.2'' ''1.2.3'']"
  let ?t = "\<lparr>columns = INSTANCE_KEYS,
             rows = [[VNone, VStr ''1.2'', VStr ''1.2.3'', VNone, VNone, VNone],
                     [VNone, VStr ''1.2'', VStr ''1.2.10'', VNone, VNone, VNone]]\<rparr>"
  let ?t' = "\<lparr>columns = INSTANCE_KEYS @ [''FileSize''],
              rows = [[VNone, VStr ''1.2'', VStr ''1.2.3'', VNone, VNone, VNone, VInt 3],
                      [VNone, VStr ''1.2'', VStr ''1.2.10'', VNone, VNone, VNone, VInt 3]]\<rparr>"
  let ?f = "[([''downloads''], Dir), ([''1.2'', ''downloads''], Dir),
             ([''1.2.10.dcm'', ''1.2'', ''downloads''], File [1, 2, 3]),
             ([''1.2.3.dcm'', ''1.2'', ''downloads''], File [1, 2, 3])]"
  have d: "dry_run ?c" by simp
  have h1: "fst (write_instances example_env ?c ?insts None False []) = Inr ?t" by code_simp
  have h2: "write_instances example_env (?c\<lparr>dry_run := False\<rparr>) ?insts None False [] =
      (Inr ?t', ?f)" by code_simp
  note t = dry_run_writes_nothing [OF d, where env = example_env and insts = ?insts
      and out_dir = None and forced = False and fs = "[]" and df = ?t and df' = ?t' and fs' = ?f
      and tbl = "\<lparr>columns = INSTANCE_KEYS, rows = []\<rparr>" and out_dir' = None
      and label = "''downloaded_series_instances''"]
  from t h1 have c: "''FileSize'' \<notin> set (columns ?t)" by blast
  from t h2 have c': "\<exists>t. write_instances example_env ?c ?insts None False [] = (Inr t, []) \<and>
      columns ?t' = columns t @ [''FileSize''] \<and> map butlast (rows ?t') = rows t" by blast
  from t d h1 h2 c c' show ?thesis by simp
qed




theorem uid_sort_order_witness:
  "those (map py_int (split_on CHR ''.'' ''1.2.3'')) = Some [1, 2, 3] \<and>
   those (map py_int (split_on CHR ''.'' ''1.2.10'')) = Some [1, 2, 10] \<and>
   those (map py_int (split_on CHR ''.'' ''1.10.1'')) = Some [1, 10, 1] \<and>
   uid_key (VStr ''1.2.3'') = Inr (KTuple [1, 2, 3]) \<and>
   uid_key (VStr ''1.2.10'') = Inr (KTuple [1, 2, 10]) \<and>
   key_lt (KTuple [1, 2, 3]) (KTuple [1, 2, 10]) = Inr True \<and>
   key_lt (KTuple [1, 2, 10]) (KTuple [1, 10, 1]) = Inr True \<and>
   key_lt (KTuple [1, 10, 1]) (KTuple [1, 2, 10]) = Inr False \<and>
   sort_frame_by_uid
       \<lparr>columns = [''SOPInstanceUID''],
        rows = [[VStr ''1.10.1''], [VStr ''1.2.10''], [VStr ''1.2.3'']]\<rparr> ''SOPInstanceUID'' =
     Inr \<lparr>columns = [''SOPInstanceUID''],
          rows = [[VStr ''1.2.3''], [VStr ''1.2.10''], [VStr ''1.10.1'']]\<rparr> \<and>
   uid_sorted \<lparr>columns = [''SOPInstanceUID''],
          rows = [[VStr ''1.2.3''], [VStr ''1.2.10''], [VStr ''1.10.1'']]\<rparr> ''SOPInstanceUID'' \<and>
   uid_sorted (projr (snd (query_studies example_archive None True None None)))
     ''StudyInstanceUID'' \<and>
   uid_sorted (projr (snd (query_series example_archive None True None None)))
     ''SeriesInstanceUID'' \<and>
   uid_sorted (projr (fst (snd (list_studies example_archive example_client None True None None
     None [])))) ''StudyInstanceUID'' \<and>
   uid_sorted (projr (fst (snd (list_series example_archive example_client None True None None
     None [])))) ''SeriesInstanceUID'' \<and>
   uid_sorted (projr (fst (write_instances example_archive example_client
     [example_instance ''1.2'' ''1.2.10'', example_instance ''1.2'' ''1.2.3''] None True [])))
     ''SOPInstanceUID'' \<and>
   uid_sorted (projr (fst (snd (download_series example_archive example_client (VStr ''1.9'')
     (VStr ''7.1'') False None True [])))) ''SOPInstanceUID'' \<and>
   uid_sorted (projr (fst (snd (download_study example_archive example_client (VStr ''1.9'')
     False None True [])))) ''SOPInstanceUID'' \<and>
   uid_sorted (the (projr (fst (snd (search_and_download_studies example_archive example_client
     None False True None None None True []))))) ''SOPInstanceUID'' \<and>
   uid_sorted (the (projr (fst (snd (search_and_download_series example_archive example_client
     None False True None None None True []))))) ''SOPInstanceUID''"
proof -
  let ?e = example_archive and ?c = example_client
  let ?insts = "[example_instance ''1.2'' ''1.2.10'', example_instance ''1.2'' ''1.2.3'']"
  let ?df = "\<lparr>columns = [''SOPInstanceUID''],
              rows = [[VStr ''1.10.1''], [VStr ''1.2.10''], [VStr ''1.2.3'']]\<rparr>"
  let ?df' = "\<lparr>columns = [''SOPInstanceUID''],
               rows = [[VStr ''1.2.3''], [VStr ''1.2.10''], [VStr ''1.10.1'']]\<rparr>"
  let ?t1 = "projr (snd (query_studies ?e None True None None))"
  let ?t2 = "projr (snd (query_series ?e None True None None))"
  let ?t3 = "projr (fst (snd (list_studies ?e ?c None True None None None [])))"
  let ?t4 = "projr (fst (snd (list_series ?e ?c None True None None None [])))"
  let ?t5 = "projr (fst (write_instances ?e ?c ?insts None True []))"
  let ?t6 = "projr (fst (snd (download_series ?e ?c (VStr ''1.9'') (VStr ''7.1'') False None
                True [])))"
  let ?t7 = "projr (fst (snd (download_study ?e ?c (VStr ''1.9'') False None True [])))"
  let ?t8 = "the (projr (fst (snd (search_and_download_studies ?e ?c None False True None None
                None True []))))"
  let ?t9 = "the (projr (fst (snd (search_and_download_series ?e ?c None False True None None
                None True []))))"
  have a: "those (map py_int (split_on CHR ''.'' ''1.2.3'')) = Some [1, 2, 3]" by code_simp
  have b: "those (map py_int (split_on CHR ''.'' ''1.2.10'')) = Some [1, 2, 10]" by code_simp
  have b': "those (map py_int (split_on CHR ''.'' ''1.10.1'')) = Some [1, 10, 1]" by code_simp
  have lt1: "(([1, 2, 3], [1, 2, 10]) \<in> lexord {(x, y :: int). x < y}) = True" by simp
  have lt2: "(([1, 2, 10], [1, 10, 1]) \<in> lexord {(x, y :: int). x < y}) = True" by simp
  have lt3: "(([1, 10, 1], [1, 2, 10]) \<in> lexord {(x, y :: int). x < y}) = False" by simp
  have s: "sort_frame_by_uid ?df ''SOPInstanceUID'' = Inr ?df'" by code_simp
  have h1: "snd (query_studies ?e None True None None) = Inr ?t1" by code_simp
  have h2: "snd (query_series ?e None True None None) = Inr ?t2" by code_simp
  have h3: "fst (snd (list_studies ?e ?c None True None None None [])) = Inr ?t3" by code_simp
  have h4: "fst (snd (list_series ?e ?c None True None None None [])) = Inr ?t4" by code_simp
  have h5: "fst (write_instances ?e ?c ?insts None True []) = Inr ?t5" by code_simp
  have h6: "fst (snd (download_series ?e ?c (VStr ''1.9'') (VStr ''7.1'') False None True [])) =
      Inr ?t6" by code_simp
  have h7: "fst (snd (download_study ?e ?c (VStr ''1.9'') False None True [])) = Inr ?t7"
    by code_simp
  have h8: "fst (snd (search_and_download_studies ?e ?c None False True None None None True [])) =
      Inr (Some ?t8)" by code_simp
  have h9: "fst (snd (search_and_download_series ?e ?c None False True None None None True [])) =
      Inr (Some ?t9)" by code_simp
  note t = uid_sort_order [where A = "''1.2.3''" and a = "[1, 2, 3]" and B = "''1.2.10''"
      and b = "[1, 2, 10]" and df = ?df and col = "''SOPInstanceUID''" and df' = ?df'
      and env = ?e and c = ?c and f = None and z = True and l = None and off = None
      and out_dir = None and fs = "[]" and insts = ?insts and forced = True
      and u = "VStr ''1.9''" and v = "VStr ''7.1''" and m = False
      and ?t1.0 = ?t1 and ?t2.0 = ?t2 and ?t3.0 = ?t3 and ?t4.0 = ?t4 and ?t5.0 = ?t5
      and ?t6.0 = ?t6 and ?t7.0 = ?t7 and ?t8.0 = ?t8 and ?t9.0 = ?t9]
  note t' = uid_sort_order [where A = "''1.2.10''" and a = "[1, 2, 10]" and B = "''1.10.1''"
      and b = "[1, 10, 1]"]
  note t'' = uid_sort_order [where A = "''1.10.1''" and a = "[1, 10, 1]" and B = "''1.2.10''"
      and b = "[1, 2, 10]"]
  from t a b lt1 have k1: "uid_key (VStr ''1.2.3'') = Inr (KTuple [1, 2, 3])"
    "uid_key (VStr ''1.2.10'') = Inr (KTuple [1, 2, 10])"
    "key_lt (KTuple [1, 2, 3]) (KTuple [1, 2, 10]) = Inr True" by simp_all
  from t' b b' lt2 have k2: "key_lt (KTuple [1, 2, 10]) (KTuple [1, 10, 1]) = Inr True" by simp
  from t'' b b' lt3 have k3: "key_lt (KTuple [1, 10, 1]) (KTuple [1, 2, 10]) = Inr False" by simp
  from t s have c0: "uid_sorted ?df' ''SOPInstanceUID''" by blast
  from t h1 have c1: "uid_sorted ?t1 ''StudyInstanceUID''" by blast
  from t h2 have c2: "uid_sorted ?t2 ''SeriesInstanceUID''" by blast
  from t h3 have c3: "uid_sorted ?t3 ''StudyInstanceUID''" by blast
  from t h4 have c4: "uid_sorted ?t4 ''SeriesInstanceUID''" by blast
  from t h5 have c5: "uid_sorted ?t5 ''SOPInstanceUID''" by blast
  from t h6 have c6: "uid_sorted ?t6 ''SOPInstanceUID''" by blast
  from t h7 have c7: "uid_sorted ?t7 ''SOPInstanceUID''" by blast
  from t h8 have c8: "uid_sorted ?t8 ''SOPInstanceUID''" by blast
  from t h9 have c9: "uid_sorted ?t9 ''SOPInstanceUID''" by blast
  from a b b' k1 k2 k3 s c0 c1 c2 c3 c4 c5 c6 c7 c8 c9 show ?thesis by blast
qed

end
